theory Spec2Isabelle
  imports Complex_Main "HOL-Library.Word"
begin

section \<open>Python values used by the scripts\<close>

text \<open>
  A \<^verbatim>\<open>bytes\<close> object is a list of 8-bit words, a Python \<^verbatim>\<open>int\<close> is an
  \<^typ>\<open>int\<close>, a JSON number is a \<^typ>\<open>real\<close> (the scripts only compare such numbers,
  they never compute with them).
\<close>

type_synonym byte = "8 word"

text \<open>
  Every \<^verbatim>\<open>raise\<close> of the modelled code is a value of this type.  The three
  header checks all raise \<^verbatim>\<open>ValueError\<close> in Python, with these messages:
  \<^item> \<open>TooSmall\<close>: \<^verbatim>\<open>"b3dm too small"\<close> (both walker scripts),
    \<^verbatim>\<open>"b3dm file too small to be valid."\<close> (g2h.py);
  \<^item> \<open>BadMagic\<close>: \<^verbatim>\<open>"not b3dm"\<close> (both walker scripts),
    \<^verbatim>\<open>"This is not a b3dm file (magic mismatch)."\<close> (g2h.py);
  \<^item> \<open>OffsetOutOfRange\<close>: \<^verbatim>\<open>"Calculated GLB offset beyond file length."\<close>
    (g2h.py only).

  \<open>StructError\<close> is \<^verbatim>\<open>struct.error\<close> (a read past the end of the buffer),
  \<open>IndexError\<close> is a list index out of range, \<open>SameFileError\<close> is what
  \<^verbatim>\<open>shutil.copy2\<close> raises when source and destination are the same file,
  \<open>FileNotFoundError\<close> what it raises without a source.
\<close>

datatype error =
  TooSmall | BadMagic | OffsetOutOfRange | StructError | IndexError | SameFileError |
  FileNotFoundError

fun and_then :: "error + 'a \<Rightarrow> ('a \<Rightarrow> error + 'b) \<Rightarrow> error + 'b" where
  "and_then (Inl e) f = Inl e"
| "and_then (Inr x) f = f x"

text \<open>\<^verbatim>\<open>xs[a:b]\<close>: an index below zero counts from the end, and both are clamped.\<close>

definition py_index :: "nat \<Rightarrow> int \<Rightarrow> nat" where
  "py_index n i = (if i < 0 then nat (max 0 (int n + i)) else min (nat i) n)"

definition py_slice :: "'a list \<Rightarrow> int \<Rightarrow> int \<Rightarrow> 'a list" where
  "py_slice xs a b = take (py_index (length xs) b - py_index (length xs) a) (drop (py_index (length xs) a) xs)"

text \<open>\<^verbatim>\<open>xs[a:]\<close>\<close>

definition py_slice_from :: "'a list \<Rightarrow> int \<Rightarrow> 'a list" where
  "py_slice_from xs a = drop (py_index (length xs) a) xs"

text \<open>
  \<^verbatim>\<open>bs.decode('ascii', errors='ignore')\<close>: bytes of 128 and above are dropped, the others
  become the characters with their codes.
\<close>

definition decode_ascii_ignore :: "byte list \<Rightarrow> string" where
  "decode_ascii_ignore bs = map (\<lambda>b. char_of (unat b)) (filter (\<lambda>b. b < 128) bs)"

text \<open>The little-endian unsigned 32-bit value of the four bytes at an offset.\<close>

definition le_u32 :: "byte list \<Rightarrow> nat \<Rightarrow> int" where
  "le_u32 data off =
     uint (data ! off) + 256 * uint (data ! (off + 1)) +
     65536 * uint (data ! (off + 2)) + 16777216 * uint (data ! (off + 3))"

text \<open>\<^verbatim>\<open>struct.unpack_from('<I', data, off)[0]\<close>, which raises when fewer than four
  bytes are left at the offset.\<close>

definition unpack_from_I :: "byte list \<Rightarrow> nat \<Rightarrow> error + int" where
  "unpack_from_I data off =
     (if length data < off + 4 then Inl StructError else Inr (le_u32 data off))"

section \<open>The tile-container parser, three times\<close>

text \<open>\<^verbatim>\<open>extract_b3dm_to_glb_bytes\<close> of extract_shibuya_scramble.py (lines 52-67).\<close>

definition extract_b3dm_to_glb_bytes :: "byte list \<Rightarrow> error + byte list" where
  "extract_b3dm_to_glb_bytes data =
     (if length data < 28 then Inl TooSmall
      else
        let magic = decode_ascii_ignore (py_slice data 0 4) in
        if magic \<noteq> ''b3dm'' then Inl BadMagic
        else
          and_then (unpack_from_I data 4) (\<lambda>version.
          and_then (unpack_from_I data 8) (\<lambda>byteLength.
          and_then (unpack_from_I data 12) (\<lambda>ftJsonLen.
          and_then (unpack_from_I data 16) (\<lambda>ftBinLen.
          and_then (unpack_from_I data 20) (\<lambda>btJsonLen.
          and_then (unpack_from_I data 24) (\<lambda>btBinLen.
            let glb_offset = 28 + ftJsonLen + ftBinLen + btJsonLen + btBinLen;
                end = (if byteLength \<le> int (length data) \<and> byteLength > glb_offset
                       then byteLength else int (length data))
            in Inr (py_slice data glb_offset end))))))))"

text \<open>\<^verbatim>\<open>extract_b3dm_to_glb_bytes\<close> of extract_b3dm_to_glb.py (lines 17-28): the version
  field is not read, and the declared length is read after the offset is computed.\<close>

definition extract_b3dm_to_glb_bytes_kaggle :: "byte list \<Rightarrow> error + byte list" where
  "extract_b3dm_to_glb_bytes_kaggle data =
     (if length data < 28 then Inl TooSmall
      else
        let magic = decode_ascii_ignore (py_slice data 0 4) in
        if magic \<noteq> ''b3dm'' then Inl BadMagic
        else
          and_then (unpack_from_I data 12) (\<lambda>ftJsonLen.
          and_then (unpack_from_I data 16) (\<lambda>ftBinLen.
          and_then (unpack_from_I data 20) (\<lambda>btJsonLen.
          and_then (unpack_from_I data 24) (\<lambda>btBinLen.
            let glb_offset = 28 + ftJsonLen + ftBinLen + btJsonLen + btBinLen in
            and_then (unpack_from_I data 8) (\<lambda>byteLength.
              let end = (if byteLength \<le> int (length data) \<and> byteLength > glb_offset
                         then byteLength else int (length data))
              in Inr (py_slice data glb_offset end)))))))"

text \<open>
  \<^verbatim>\<open>extract_b3dm_glb\<close> of g2h.py (lines 95-124), between
  \<^verbatim>\<open>data = b3dm_path.read_bytes()\<close> and \<^verbatim>\<open>out_path.write_bytes(glb_data)\<close>: the
  argument is the content of the file read, the result is the content of the file written.
\<close>

definition extract_b3dm_glb :: "byte list \<Rightarrow> error + byte list" where
  "extract_b3dm_glb data =
     (if length data < 28 then Inl TooSmall
      else
        let magic = decode_ascii_ignore (py_slice data 0 4) in
        if magic \<noteq> ''b3dm'' then Inl BadMagic
        else
          and_then (unpack_from_I data 4) (\<lambda>version.
          and_then (unpack_from_I data 8) (\<lambda>byteLength.
          and_then (unpack_from_I data 12) (\<lambda>ftJsonLen.
          and_then (unpack_from_I data 16) (\<lambda>ftBinLen.
          and_then (unpack_from_I data 20) (\<lambda>btJsonLen.
          and_then (unpack_from_I data 24) (\<lambda>btBinLen.
            let glb_offset = 28 + ftJsonLen + ftBinLen + btJsonLen + btBinLen in
            if glb_offset \<ge> int (length data) then Inl OffsetOutOfRange
            else
              let glb_data = (if byteLength \<le> int (length data)
                              then py_slice data glb_offset byteLength
                              else py_slice_from data glb_offset)
              in Inr glb_data)))))))"

text \<open>The values of the locals \<^verbatim>\<open>glb_offset\<close> and \<^verbatim>\<open>end\<close> of the two walker
  scripts' parser, as functions of the buffer.\<close>

definition glb_offset_of :: "byte list \<Rightarrow> int" where
  "glb_offset_of data = 28 + le_u32 data 12 + le_u32 data 16 + le_u32 data 20 + le_u32 data 24"

definition end_of :: "byte list \<Rightarrow> int" where
  "end_of data =
     (if le_u32 data 8 \<le> int (length data) \<and> le_u32 data 8 > glb_offset_of data
      then le_u32 data 8 else int (length data))"

text \<open>The magic as bytes, a header of seven fields, and three small containers: the
  one of the specification's scenario (20 bytes of table, 52 bytes of payload), a header with
  nothing behind it, and a header whose declared length counts the header only.\<close>

definition b3dm_magic :: "byte list" where
  "b3dm_magic = [0x62, 0x33, 0x64, 0x6D]"

definition u32_bytes :: "nat \<Rightarrow> byte list" where
  "u32_bytes n = [of_nat n, of_nat (n div 256), of_nat (n div 65536), of_nat (n div 16777216)]"

definition b3dm_header :: "nat \<Rightarrow> nat \<Rightarrow> nat \<Rightarrow> nat \<Rightarrow> nat \<Rightarrow> nat \<Rightarrow> byte list" where
  "b3dm_header version byteLength ftJsonLen ftBinLen btJsonLen btBinLen =
     b3dm_magic @ u32_bytes version @ u32_bytes byteLength @ u32_bytes ftJsonLen @
     u32_bytes ftBinLen @ u32_bytes btJsonLen @ u32_bytes btBinLen"

definition spec_container :: "byte list" where
  "spec_container = b3dm_header 1 100 20 0 0 0 @ replicate 20 0x20 @ replicate 52 0x67"

definition header_only :: "byte list" where
  "header_only = b3dm_header 1 28 0 0 0 0"

definition stale_length_container :: "byte list" where
  "stale_length_container = b3dm_header 1 28 0 0 0 0 @ [0x67, 0x6C, 0x54, 0x46]"

section \<open>The rectangle test\<close>

text \<open>
  \<^verbatim>\<open>bbox_intersect\<close>, the same text in extract_shibuya_scramble.py (lines 42-50) and
  extract_b3dm_to_glb.py (lines 10-15).  The region is a JSON array: reading one of its
  first four entries raises when the array is shorter.
\<close>

definition bbox_intersect :: "real list \<Rightarrow> real \<times> real \<times> real \<times> real \<Rightarrow> error + bool" where
  "bbox_intersect region target_bbox =
     (if length region < 4 then Inl IndexError
      else
        let west = region ! 0; south = region ! 1; east = region ! 2; north = region ! 3;
            (lon_min, lat_min, lon_max, lat_max) = target_bbox
        in if lon_max < west \<or> lon_min > east then Inr False
           else if lat_max < south \<or> lat_min > north then Inr False
           else Inr True)"

section \<open>Paths and the file system\<close>

text \<open>
  A resolved \<^verbatim>\<open>pathlib.Path\<close> is its POSIX string.  \<^verbatim>\<open>name\<close>, \<^verbatim>\<open>suffix\<close> and
  \<^verbatim>\<open>stem\<close> are pathlib's (Python 3.8 to 3.13): the name is what follows the last slash; with \<open>i\<close> the
  index of the last dot of the name (\<^verbatim>\<open>rfind\<close>, \<open>-1\<close> without a dot), the suffix is
  \<^verbatim>\<open>name[i:]\<close> and the stem \<^verbatim>\<open>name[:i]\<close> when \<^verbatim>\<open>0 < i < len(name) - 1\<close>, and
  otherwise the suffix is empty and the stem is the name.
\<close>

type_synonym path = string

definition path_name :: "path \<Rightarrow> string" where
  "path_name p = rev (takeWhile (\<lambda>c. c \<noteq> CHR ''/'') (rev p))"

definition rfind_dot :: "string \<Rightarrow> int" where
  "rfind_dot name =
     (if CHR ''.'' \<in> set name
      then int (length name) - 1 - int (length (takeWhile (\<lambda>c. c \<noteq> CHR ''.'') (rev name)))
      else - 1)"

definition path_suffix :: "path \<Rightarrow> string" where
  "path_suffix p =
     (let name = path_name p; i = rfind_dot name
      in if 0 < i \<and> i < int (length name) - 1 then drop (nat i) name else [])"

definition path_stem :: "path \<Rightarrow> string" where
  "path_stem p =
     (let name = path_name p; i = rfind_dot name
      in if 0 < i \<and> i < int (length name) - 1 then take (nat i) name else name)"

text \<open>\<^verbatim>\<open>str.lower\<close> on the letters A to Z (the three extensions compared with are ASCII).\<close>

definition lower_char :: "char \<Rightarrow> char" where
  "lower_char c = (let n = (of_char c :: nat) in if 65 \<le> n \<and> n \<le> 90 then char_of (n + 32) else c)"

definition lower :: "string \<Rightarrow> string" where
  "lower s = map lower_char s"

text \<open>\<^verbatim>\<open>OUT_DIR / name\<close>, for a name without a slash.\<close>

definition path_join :: "path \<Rightarrow> string \<Rightarrow> path" where
  "path_join dir name = dir @ ''/'' @ name"

text \<open>
  The state of one run: the counter \<^verbatim>\<open>extracted\<close>, the set \<^verbatim>\<open>processed_files\<close>
  (\<^verbatim>\<open>processed\<close> in extract_b3dm_to_glb.py), the regular files on disk with their
  content (\<^verbatim>\<open>absolute.exists()\<close> is whether the path is among them; directories and links
  are not modelled, reads and writes of regular files succeed), and a trace.  The trace is a history variable: it records, in program order, each
  \<^verbatim>\<open>processed_files.add\<close>, \<^verbatim>\<open>read_bytes\<close>, \<^verbatim>\<open>write_bytes\<close>, \<^verbatim>\<open>shutil.copy2\<close>
  and \<^verbatim>\<open>extracted += 1\<close> that was executed, each with the source path being handled.
  Nothing reads it.  The \<^verbatim>\<open>print\<close> calls are left out.
\<close>

datatype event =
    Added path
  | Read path
  | Wrote path path
  | Copied path path
  | Counted path

record walker_state =
  extracted :: nat
  processed_files :: "path set"
  files :: "path \<rightharpoonup> byte list"
  trace :: "event list"

text \<open>
  What the walker reads and never changes: the constant \<^verbatim>\<open>TARGET_BBOX\<close>, the constant
  \<^verbatim>\<open>OUT_DIR\<close>, and pathlib's \<^verbatim>\<open>(base_path / uri).resolve()\<close>, taken as a parameter.
\<close>

record env =
  target_bbox :: "real \<times> real \<times> real \<times> real"
  out_dir :: path
  resolve :: "path \<Rightarrow> string \<Rightarrow> path"

text \<open>The four numbers of \<^verbatim>\<open>TARGET_BBOX\<close> in both scripts.\<close>

definition TARGET_BBOX :: "real \<times> real \<times> real \<times> real" where
  "TARGET_BBOX = (139.6996, 35.6588, 139.7014, 35.6602)"

text \<open>
  The parts of a manifest the walker looks at.  A key that is absent is \<open>None\<close>; an absent
  \<^verbatim>\<open>children\<close> is the empty list, as \<^verbatim>\<open>tile.get("children", [])\<close> makes it.  A
  \<^verbatim>\<open>boundingVolume\<close> without \<^verbatim>\<open>region\<close> (a box or a sphere) is
  \<open>BoundingVolume None\<close>.  A \<^verbatim>\<open>content\<close> object with neither \<^verbatim>\<open>uri\<close> nor \<^verbatim>\<open>url\<close>
  is \<open>Content None None\<close>, whether it is empty (and fails \<^verbatim>\<open>if intersects and content\<close>)
  or not (and fails \<^verbatim>\<open>if uri\<close>).  The \<open>root\<close> of a manifest is \<open>None\<close> when
  \<^verbatim>\<open>not root_tile\<close> holds: the key is absent, null or the empty object.
  \<open>Unparsable\<close> is a file on which \<^verbatim>\<open>json.loads\<close> raises.
\<close>

datatype bounding_volume = BoundingVolume (region: "real list option")

datatype content = Content (uri: "string option") (url: "string option")

datatype tile = Tile (boundingVolume: "bounding_volume option") (content: "content option")
  (children: "tile list")

datatype manifest = Unparsable | Manifest (root: "tile option") (tiles: "tile list option")

subsection \<open>The statements that change the state\<close>

definition add_processed :: "path \<Rightarrow> walker_state \<Rightarrow> walker_state" where
  "add_processed p st =
     st\<lparr>processed_files := insert p (processed_files st), trace := trace st @ [Added p]\<rparr>"

text \<open>\<^verbatim>\<open>absolute.read_bytes()\<close>; \<open>None\<close> when there is no such file (an exception that the
  \<^verbatim>\<open>except\<close> around it catches).\<close>

definition read_bytes :: "path \<Rightarrow> walker_state \<Rightarrow> byte list option \<times> walker_state" where
  "read_bytes p st = (files st p, st\<lparr>trace := trace st @ [Read p]\<rparr>)"

definition write_bytes :: "path \<Rightarrow> path \<Rightarrow> byte list \<Rightarrow> walker_state \<Rightarrow> walker_state" where
  "write_bytes src dst bs st =
     st\<lparr>files := (files st)(dst \<mapsto> bs), trace := trace st @ [Wrote src dst]\<rparr>"

text \<open>\<^verbatim>\<open>shutil.copy2(src, dst)\<close>, which needs the source and refuses to copy a file onto
  itself.\<close>

definition copy2 :: "path \<Rightarrow> path \<Rightarrow> walker_state \<Rightarrow> error option \<times> walker_state" where
  "copy2 src dst st =
     (case files st src of
        None \<Rightarrow> (Some FileNotFoundError, st)
      | Some data \<Rightarrow>
          if src = dst then (Some SameFileError, st)
          else (None, st\<lparr>files := (files st)(dst \<mapsto> data),
                          trace := trace st @ [Copied src dst]\<rparr>))"

definition count_extracted :: "path \<Rightarrow> walker_state \<Rightarrow> walker_state" where
  "count_extracted src st =
     st\<lparr>extracted := extracted st + 1, trace := trace st @ [Counted src]\<rparr>"

subsection \<open>Truth values of Python\<close>

text \<open>\<^verbatim>\<open>if v:\<close> for a value that is \<^verbatim>\<open>None\<close>, a string or a list; \<^verbatim>\<open>a or b\<close>.\<close>

definition truthy :: "'a list option \<Rightarrow> bool" where
  "truthy v = (case v of None \<Rightarrow> False | Some xs \<Rightarrow> xs \<noteq> [])"

definition py_or :: "'a list option \<Rightarrow> 'a list option \<Rightarrow> 'a list option" where
  "py_or a b = (if truthy a then a else b)"

section \<open>The walker of extract_shibuya_scramble.py\<close>

text \<open>Lines 159-163 of \<^verbatim>\<open>process_tile\<close> (63-67 in extract_b3dm_to_glb.py): the value of
  \<^verbatim>\<open>intersects\<close>, or the exception of \<^verbatim>\<open>bbox_intersect\<close>.\<close>

definition tile_intersects ::
  "real \<times> real \<times> real \<times> real \<Rightarrow> bounding_volume option \<Rightarrow> error + bool" where
  "tile_intersects box bv =
     (let region = (case bv of None \<Rightarrow> None | Some v \<Rightarrow> region v)
      in if truthy region then bbox_intersect (the region) box else Inr True)"

text \<open>Lines 174-192, the body of \<^verbatim>\<open>if absolute.exists():\<close>; lines 198-216 are the same
  text with \<^verbatim>\<open>candidate\<close> for \<^verbatim>\<open>absolute\<close>.  An exception inside \<^verbatim>\<open>try\<close> is caught
  and the walk goes on; one of \<^verbatim>\<open>shutil.copy2\<close> is not caught.\<close>

definition handle_file :: "env \<Rightarrow> path \<Rightarrow> walker_state \<Rightarrow> error option \<times> walker_state" where
  "handle_file env absolute st =
     (if lower (path_suffix absolute) = ''.b3dm'' then
        if absolute \<notin> processed_files st then
          let st1 = add_processed absolute st in
          case read_bytes absolute st1 of
            (None, st2) \<Rightarrow> (None, st2)
          | (Some data, st2) \<Rightarrow>
              (case extract_b3dm_to_glb_bytes data of
                 Inl e \<Rightarrow> (None, st2)
               | Inr glb_bytes \<Rightarrow>
                   let out_path = path_join (out_dir env) (path_stem absolute @ ''.glb'');
                       st3 = write_bytes absolute out_path glb_bytes st2
                   in (None, count_extracted absolute st3))
        else (None, st)
      else if lower (path_suffix absolute) \<in> {''.glb'', ''.gltf''} then
        if absolute \<notin> processed_files st then
          let st1 = add_processed absolute st;
              dst = path_join (out_dir env) (path_name absolute)
          in case copy2 absolute dst st1 of
               (Some e, st2) \<Rightarrow> (Some e, st2)
             | (None, st2) \<Rightarrow> (None, count_extracted absolute st2)
        else (None, st)
      else (None, st))"

text \<open>Lines 167-219, the body of \<^verbatim>\<open>if intersects and content:\<close>.\<close>

definition process_content ::
  "env \<Rightarrow> path \<Rightarrow> content \<Rightarrow> walker_state \<Rightarrow> error option \<times> walker_state" where
  "process_content env base_path c st =
     (let u = py_or (py_or (uri c) (url c)) (uri c)
      in if truthy u then
           let absolute = resolve env base_path (the u)
           in if files st absolute \<noteq> None then handle_file env absolute st
              else
                let candidate = resolve env base_path (the u)
                in if files st candidate \<noteq> None then handle_file env candidate st
                   else (None, st)
         else (None, st))"

text \<open>\<^verbatim>\<open>process_tile\<close> (lines 156-223) and its loop over the children.  The result is the
  exception that ended the walk, if any, and the state reached.\<close>

fun process_tile :: "env \<Rightarrow> path \<Rightarrow> tile \<Rightarrow> walker_state \<Rightarrow> error option \<times> walker_state"
  and process_tiles :: "env \<Rightarrow> path \<Rightarrow> tile list \<Rightarrow> walker_state \<Rightarrow> error option \<times> walker_state"
where
  "process_tile env base_path (Tile bv c ch) st =
     (case tile_intersects (target_bbox env) bv of
        Inl e \<Rightarrow> (Some e, st)
      | Inr intersects \<Rightarrow>
          (case (if intersects \<and> c \<noteq> None then process_content env base_path (the c) st
                 else (None, st)) of
             (Some e, st') \<Rightarrow> (Some e, st')
           | (None, st') \<Rightarrow> process_tiles env base_path ch st'))"
| "process_tiles env base_path [] st = (None, st)"
| "process_tiles env base_path (child # rest) st =
     (case process_tile env base_path child st of
        (Some e, st') \<Rightarrow> (Some e, st')
      | (None, st') \<Rightarrow> process_tiles env base_path rest st')"

text \<open>Lines 225-240 of \<^verbatim>\<open>main\<close>: the loop over the manifests found, each with the
  directory it lies in; and the state the loop starts in (lines 153-154).\<close>

fun walk_tilesets ::
  "env \<Rightarrow> (path \<times> manifest) list \<Rightarrow> walker_state \<Rightarrow> error option \<times> walker_state" where
  "walk_tilesets env [] st = (None, st)"
| "walk_tilesets env ((parent, Unparsable) # rest) st = walk_tilesets env rest st"
| "walk_tilesets env ((parent, Manifest None None) # rest) st = walk_tilesets env rest st"
| "walk_tilesets env ((parent, Manifest None (Some ts)) # rest) st =
     (case process_tiles env parent ts st of
        (Some e, st') \<Rightarrow> (Some e, st')
      | (None, st') \<Rightarrow> walk_tilesets env rest st')"
| "walk_tilesets env ((parent, Manifest (Some root_tile) ts) # rest) st =
     (case process_tile env parent root_tile st of
        (Some e, st') \<Rightarrow> (Some e, st')
      | (None, st') \<Rightarrow> walk_tilesets env rest st')"

definition initial_state :: "(path \<rightharpoonup> byte list) \<Rightarrow> walker_state" where
  "initial_state fs = \<lparr>extracted = 0, processed_files = {}, files = fs, trace = []\<rparr>"

section \<open>The walker of extract_b3dm_to_glb.py\<close>

text \<open>Lines 74-90: the membership test is part of each condition, so a container that was
  processed already falls through to the \<^verbatim>\<open>elif\<close>, which its suffix fails.\<close>

definition handle_file_kaggle :: "env \<Rightarrow> path \<Rightarrow> walker_state \<Rightarrow> error option \<times> walker_state" where
  "handle_file_kaggle env absolute st =
     (if lower (path_suffix absolute) = ''.b3dm'' \<and> absolute \<notin> processed_files st then
        let st1 = add_processed absolute st in
        case read_bytes absolute st1 of
          (None, st2) \<Rightarrow> (None, st2)
        | (Some data, st2) \<Rightarrow>
            (case extract_b3dm_to_glb_bytes_kaggle data of
               Inl e \<Rightarrow> (None, st2)
             | Inr glb \<Rightarrow>
                 let outp = path_join (out_dir env) (path_stem absolute @ ''.glb'');
                     st3 = write_bytes absolute outp glb st2
                 in (None, count_extracted absolute st3))
      else if lower (path_suffix absolute) \<in> {''.glb'', ''.gltf''} \<and>
              absolute \<notin> processed_files st then
        let st1 = add_processed absolute st;
            dst = path_join (out_dir env) (path_name absolute)
        in case copy2 absolute dst st1 of
             (Some e, st2) \<Rightarrow> (Some e, st2)
           | (None, st2) \<Rightarrow> (None, count_extracted absolute st2)
      else (None, st))"

text \<open>Lines 70-90.\<close>

definition process_content_kaggle ::
  "env \<Rightarrow> path \<Rightarrow> content \<Rightarrow> walker_state \<Rightarrow> error option \<times> walker_state" where
  "process_content_kaggle env base_path c st =
     (let u = py_or (uri c) (url c)
      in if truthy u then
           let absolute = resolve env base_path (the u)
           in if files st absolute \<noteq> None then handle_file_kaggle env absolute st
              else (None, st)
         else (None, st))"

text \<open>\<^verbatim>\<open>process_tile\<close> (lines 61-92).\<close>

fun process_tile_kaggle ::
    "env \<Rightarrow> path \<Rightarrow> tile \<Rightarrow> walker_state \<Rightarrow> error option \<times> walker_state"
  and process_tiles_kaggle ::
    "env \<Rightarrow> path \<Rightarrow> tile list \<Rightarrow> walker_state \<Rightarrow> error option \<times> walker_state"
where
  "process_tile_kaggle env base_path (Tile bv c ch) st =
     (case tile_intersects (target_bbox env) bv of
        Inl e \<Rightarrow> (Some e, st)
      | Inr intersects \<Rightarrow>
          (case (if intersects \<and> c \<noteq> None then process_content_kaggle env base_path (the c) st
                 else (None, st)) of
             (Some e, st') \<Rightarrow> (Some e, st')
           | (None, st') \<Rightarrow> process_tiles_kaggle env base_path ch st'))"
| "process_tiles_kaggle env base_path [] st = (None, st)"
| "process_tiles_kaggle env base_path (child # rest) st =
     (case process_tile_kaggle env base_path child st of
        (Some e, st') \<Rightarrow> (Some e, st')
      | (None, st') \<Rightarrow> process_tiles_kaggle env base_path rest st')"

text \<open>Lines 94-104: without a root, the \<^verbatim>\<open>tiles\<close> list, empty when the key is absent.\<close>

fun walk_tilesets_kaggle ::
  "env \<Rightarrow> (path \<times> manifest) list \<Rightarrow> walker_state \<Rightarrow> error option \<times> walker_state" where
  "walk_tilesets_kaggle env [] st = (None, st)"
| "walk_tilesets_kaggle env ((parent, Unparsable) # rest) st = walk_tilesets_kaggle env rest st"
| "walk_tilesets_kaggle env ((parent, Manifest (Some root_tile) ts) # rest) st =
     (case process_tile_kaggle env parent root_tile st of
        (Some e, st') \<Rightarrow> (Some e, st')
      | (None, st') \<Rightarrow> walk_tilesets_kaggle env rest st')"
| "walk_tilesets_kaggle env ((parent, Manifest None ts) # rest) st =
     (case process_tiles_kaggle env parent (case ts of None \<Rightarrow> [] | Some l \<Rightarrow> l) st of
        (Some e, st') \<Rightarrow> (Some e, st')
      | (None, st') \<Rightarrow> walk_tilesets_kaggle env rest st')"

section \<open>Reading the trace\<close>

text \<open>The source paths that were read or copied, and those that were counted, in order.\<close>

fun sources_of :: "event list \<Rightarrow> path list" where
  "sources_of [] = []"
| "sources_of (Read p # es) = p # sources_of es"
| "sources_of (Copied p d # es) = p # sources_of es"
| "sources_of (Added p # es) = sources_of es"
| "sources_of (Wrote p d # es) = sources_of es"
| "sources_of (Counted p # es) = sources_of es"

fun counted_of :: "event list \<Rightarrow> path list" where
  "counted_of [] = []"
| "counted_of (Counted p # es) = p # counted_of es"
| "counted_of (Added p # es) = counted_of es"
| "counted_of (Read p # es) = counted_of es"
| "counted_of (Wrote p d # es) = counted_of es"
| "counted_of (Copied p d # es) = counted_of es"

fun added_of :: "event list \<Rightarrow> path list" where
  "added_of [] = []"
| "added_of (Added p # es) = p # added_of es"
| "added_of (Read p # es) = added_of es"
| "added_of (Wrote p d # es) = added_of es"
| "added_of (Copied p d # es) = added_of es"
| "added_of (Counted p # es) = added_of es"

text \<open>Every read, write, copy and count in the trace comes after the \<open>Added\<close> of its source
  path (or the path is in the set \<open>A\<close> the scan starts with).\<close>

fun added_before :: "path set \<Rightarrow> event list \<Rightarrow> bool" where
  "added_before A [] = True"
| "added_before A (Added p # es) = added_before (insert p A) es"
| "added_before A (Read p # es) = (p \<in> A \<and> added_before A es)"
| "added_before A (Wrote p d # es) = (p \<in> A \<and> added_before A es)"
| "added_before A (Copied p d # es) = (p \<in> A \<and> added_before A es)"
| "added_before A (Counted p # es) = (p \<in> A \<and> added_before A es)"

text \<open>The destination of a write or a copy, as the walker derives it from the source.\<close>

fun named_by_source :: "env \<Rightarrow> event \<Rightarrow> bool" where
  "named_by_source env (Wrote p d) = (d = path_join (out_dir env) (path_stem p @ ''.glb''))"
| "named_by_source env (Copied p d) = (d = path_join (out_dir env) (path_name p))"
| "named_by_source env (Added p) = True"
| "named_by_source env (Read p) = True"
| "named_by_source env (Counted p) = True"

text \<open>The nodes of a tree, the node itself first.\<close>

fun subtiles :: "tile \<Rightarrow> tile list" where
  "subtiles (Tile bv c ch) = Tile bv c ch # concat (map subtiles ch)"

text \<open>The invariant of a run: what the trace and the rest of the state say of each other.\<close>

definition trace_ok :: "walker_state \<Rightarrow> bool" where
  "trace_ok st \<longleftrightarrow>
     distinct (sources_of (trace st)) \<and>
     set (sources_of (trace st)) \<subseteq> processed_files st \<and>
     distinct (counted_of (trace st)) \<and>
     set (counted_of (trace st)) \<subseteq> set (sources_of (trace st)) \<and>
     extracted st = length (counted_of (trace st)) \<and>
     added_before {} (trace st)"

section \<open>Example runs\<close>

text \<open>An environment with the scripts' target box, and a small disk: three assets of which
  two have the same name in different directories, and two containers of the same name.\<close>

definition demo_env :: env where
  "demo_env = \<lparr>target_bbox = TARGET_BBOX, out_dir = ''/out'',
     resolve = (\<lambda>base_path u. base_path @ ''/'' @ u)\<rparr>"

definition demo_files :: "path \<rightharpoonup> byte list" where
  "demo_files = [''/d/a.b3dm'' \<mapsto> spec_container, ''/d/b.glb'' \<mapsto> [1, 2, 3],
     ''/d/c.glb'' \<mapsto> [4, 5], ''/e/b.glb'' \<mapsto> [6],
     ''/e/a.b3dm'' \<mapsto> stale_length_container]"

text \<open>A node with a content reference and nothing else.\<close>

definition leaf :: "string \<Rightarrow> tile" where
  "leaf u = Tile None (Some (Content (Some u) None)) []"

text \<open>A region that overlaps the target box and one far east of it.\<close>

definition near_region :: "real list" where
  "near_region = [139.70, 35.65, 139.71, 35.66, 0, 100]"

definition far_region :: "real list" where
  "far_region = [140, 35.65, 141, 35.66, 0, 100]"

text \<open>A root without content; a first child that intersects and refers to the container;
  a second child that does not intersect and refers to an asset, with a child of its own that
  intersects and refers to another asset.\<close>

definition scenario_tree :: tile where
  "scenario_tree = Tile None None
     [Tile (Some (BoundingVolume (Some near_region))) (Some (Content (Some ''a.b3dm'') None)) [],
      Tile (Some (BoundingVolume (Some far_region))) (Some (Content (Some ''b.glb'') None))
        [Tile (Some (BoundingVolume (Some near_region))) (Some (Content (Some ''c.glb'') None)) []]]"

text \<open>One file referred to by two siblings of one manifest and by a second manifest.\<close>

definition twice_manifests :: "(path \<times> manifest) list" where
  "twice_manifests =
     [(''/d'', Manifest (Some (Tile None None [leaf ''a.b3dm'', leaf ''a.b3dm''])) None),
      (''/d'', Manifest None (Some [leaf ''a.b3dm'']))]"

text \<open>Two manifests in two directories, each referring to its own \<^verbatim>\<open>b.glb\<close>.\<close>

definition same_name_manifests :: "(path \<times> manifest) list" where
  "same_name_manifests =
     [(''/d'', Manifest (Some (leaf ''b.glb'')) None),
      (''/e'', Manifest (Some (leaf ''b.glb'')) None)]"

section \<open>Properties of the parser\<close>

lemma byte_char_eq:
  fixes b :: byte
  shows "char_of (unat b) = (c :: char) \<longleftrightarrow> unat b = of_char c"
proof
  assume "char_of (unat b) = c"
  then have "of_char (char_of (unat b) :: char) = (of_char c :: nat)"
    by simp
  then have "unat b mod 256 = of_char c"
    by (simp only: of_char_of)
  moreover have "unat b < 256"
    using unsigned_less [of b, where ?'a = nat] by simp
  ultimately show "unat b = of_char c"
    by simp
next
  assume "unat b = of_char c"
  then show "char_of (unat b) = c"
    by simp
qed

lemma list4:
  assumes "4 \<le> length data"
  obtains a b c d rest where "data = a # b # c # d # rest"
proof -
  from assms obtain a r1 where 1: "data = a # r1" by (cases data) auto
  with assms obtain b r2 where 2: "r1 = b # r2" by (cases r1) auto
  with 1 assms obtain c r3 where 3: "r2 = c # r3" by (cases r2) auto
  with 1 2 assms obtain d r4 where 4: "r3 = d # r4" by (cases r3) auto
  show ?thesis using that 1 2 3 4 by simp
qed

lemma unat_byte_eq:
  fixes b :: byte
  shows "unat b = n \<longleftrightarrow> b = of_nat n \<and> n < 256"
proof
  assume "unat b = n"
  moreover have "unat b < 256"
    using unsigned_less [of b, where ?'a = nat] by simp
  ultimately show "b = of_nat n \<and> n < 256"
    by auto
next
  assume "b = of_nat n \<and> n < 256"
  then show "unat b = n"
    by (simp add: unat_of_nat)
qed

lemma magic_check:
  assumes "4 \<le> length data"
  shows "decode_ascii_ignore (py_slice data 0 4) = ''b3dm'' \<longleftrightarrow> take 4 data = b3dm_magic"
proof -
  obtain a b c d rest where d: "data = a # b # c # d # rest"
    using assms by (rule list4)
  show ?thesis
    unfolding d
    by (auto simp: py_slice_def py_index_def decode_ascii_ignore_def b3dm_magic_def
        byte_char_eq unat_byte_eq)
qed

lemma le_u32_nonneg: "0 \<le> le_u32 data off"
  by (simp add: le_u32_def)

lemma le_u32_bound: "le_u32 data off < 4294967296"
proof -
  have b: "uint (w :: byte) < 256" for w
    using uint_lt2p [of w] by simp
  have "uint (data ! off) < 256" "uint (data ! (off + 1)) < 256"
    "uint (data ! (off + 2)) < 256" "uint (data ! (off + 3)) < 256"
    by (rule b)+
  then show ?thesis
    unfolding le_u32_def by linarith
qed

lemma unpack_from_I_header:
  "off + 4 \<le> length data \<Longrightarrow> unpack_from_I data off = Inr (le_u32 data off)"
  by (simp add: unpack_from_I_def)

lemma extract_scramble_accepts:
  assumes "28 \<le> length data" and "take 4 data = b3dm_magic"
  shows "extract_b3dm_to_glb_bytes data = Inr (py_slice data (glb_offset_of data) (end_of data))"
  using assms
  by (simp add: extract_b3dm_to_glb_bytes_def magic_check unpack_from_I_header
      glb_offset_of_def end_of_def Let_def)

lemma extract_kaggle_accepts:
  assumes "28 \<le> length data" and "take 4 data = b3dm_magic"
  shows "extract_b3dm_to_glb_bytes_kaggle data = Inr (py_slice data (glb_offset_of data) (end_of data))"
  using assms
  by (simp add: extract_b3dm_to_glb_bytes_kaggle_def magic_check unpack_from_I_header
      glb_offset_of_def end_of_def Let_def)

lemma extract_g2h_accepts:
  assumes "28 \<le> length data" and "take 4 data = b3dm_magic"
  shows "extract_b3dm_glb data =
    (if glb_offset_of data \<ge> int (length data) then Inl OffsetOutOfRange
     else Inr (if le_u32 data 8 \<le> int (length data)
               then py_slice data (glb_offset_of data) (le_u32 data 8)
               else py_slice_from data (glb_offset_of data)))"
  using assms
  by (simp add: extract_b3dm_glb_def magic_check unpack_from_I_header
      glb_offset_of_def Let_def)

lemma extract_too_small:
  "length data < 28 \<Longrightarrow> extract_b3dm_to_glb_bytes data = Inl TooSmall \<and>
     extract_b3dm_to_glb_bytes_kaggle data = Inl TooSmall \<and> extract_b3dm_glb data = Inl TooSmall"
  by (simp add: extract_b3dm_to_glb_bytes_def extract_b3dm_to_glb_bytes_kaggle_def extract_b3dm_glb_def)

lemma extract_bad_magic:
  "28 \<le> length data \<Longrightarrow> take 4 data \<noteq> b3dm_magic \<Longrightarrow>
     extract_b3dm_to_glb_bytes data = Inl BadMagic \<and>
     extract_b3dm_to_glb_bytes_kaggle data = Inl BadMagic \<and> extract_b3dm_glb data = Inl BadMagic"
  by (simp add: extract_b3dm_to_glb_bytes_def extract_b3dm_to_glb_bytes_kaggle_def
      extract_b3dm_glb_def magic_check)

lemma extract_kaggle_eq: "extract_b3dm_to_glb_bytes_kaggle data = extract_b3dm_to_glb_bytes data"
proof (cases "length data < 28")
  case True
  then show ?thesis using extract_too_small by simp
next
  case False
  then show ?thesis
    using extract_bad_magic [of data] extract_scramble_accepts [of data] extract_kaggle_accepts [of data]
    by (cases "take 4 data = b3dm_magic") simp_all
qed

lemma py_slice_in_range:
  assumes "0 \<le> a" and "a \<le> b" and "b \<le> int (length xs)"
  shows "py_slice xs a b = take (nat (b - a)) (drop (nat a) xs)"
    and "length (py_slice xs a b) = nat (b - a)"
proof -
  have a: "py_index (length xs) a = nat a" and b: "py_index (length xs) b = nat b"
    using assms by (simp_all add: py_index_def)
  have d: "nat b - nat a = nat (b - a)"
    using assms by (simp add: nat_diff_distrib)
  show "py_slice xs a b = take (nat (b - a)) (drop (nat a) xs)"
    by (simp add: py_slice_def a b d)
  have "nat (b - a) \<le> length xs - nat a"
    using assms by linarith
  then show "length (py_slice xs a b) = nat (b - a)"
    by (simp add: py_slice_def a b d)
qed

text \<open>
  Claim C1.  A buffer of at least 28 bytes that starts with the magic and whose payload offset
  lies strictly below its length makes both walker scripts' parser return the bytes of the
  half-open range from \<open>glb_offset_of\<close> to \<open>end_of\<close>, where 28 \<open>\<le>\<close> offset \<open><\<close> end
  \<open>\<le>\<close> length, and the offset is 28 plus the four little-endian table lengths at 12, 16, 20
  and 24.
\<close>

theorem parse_payload_range:
  assumes "28 \<le> length data"
    and "take 4 data = b3dm_magic"
    and "28 + le_u32 data 12 + le_u32 data 16 + le_u32 data 20 + le_u32 data 24 < int (length data)"
  shows "extract_b3dm_to_glb_bytes data = Inr (py_slice data (glb_offset_of data) (end_of data)) \<and>
    extract_b3dm_to_glb_bytes_kaggle data = Inr (py_slice data (glb_offset_of data) (end_of data)) \<and>
    py_slice data (glb_offset_of data) (end_of data) =
      take (nat (end_of data - glb_offset_of data)) (drop (nat (glb_offset_of data)) data) \<and>
    length (py_slice data (glb_offset_of data) (end_of data)) = nat (end_of data - glb_offset_of data) \<and>
    28 \<le> glb_offset_of data \<and> glb_offset_of data < end_of data \<and> end_of data \<le> int (length data) \<and>
    glb_offset_of data = 28 + le_u32 data 12 + le_u32 data 16 + le_u32 data 20 + le_u32 data 24"
proof -
  have o: "28 \<le> glb_offset_of data"
    using le_u32_nonneg [of data 12] le_u32_nonneg [of data 16]
      le_u32_nonneg [of data 20] le_u32_nonneg [of data 24]
    by (simp add: glb_offset_of_def)
  have lt: "glb_offset_of data < int (length data)"
    using assms(3) by (simp add: glb_offset_of_def)
  have e: "glb_offset_of data < end_of data" "end_of data \<le> int (length data)"
    using lt by (simp_all add: end_of_def)
  have s: "py_slice data (glb_offset_of data) (end_of data) =
      take (nat (end_of data - glb_offset_of data)) (drop (nat (glb_offset_of data)) data)"
    "length (py_slice data (glb_offset_of data) (end_of data)) = nat (end_of data - glb_offset_of data)"
    using py_slice_in_range [of "glb_offset_of data" "end_of data" data] o e by simp_all
  show ?thesis
    using extract_scramble_accepts [OF assms(1,2)] extract_kaggle_accepts [OF assms(1,2)] o e s
    by (simp add: glb_offset_of_def)
qed

lemma spec_container_facts:
  "length spec_container = 100" "take 4 spec_container = b3dm_magic"
  "le_u32 spec_container 8 = 100"
  "le_u32 spec_container 12 = 20" "le_u32 spec_container 16 = 0"
  "le_u32 spec_container 20 = 0" "le_u32 spec_container 24 = 0"
  by (simp_all add: spec_container_def b3dm_header_def b3dm_magic_def u32_bytes_def le_u32_def)

theorem parse_payload_range_witness:
  "28 \<le> length spec_container \<and> take 4 spec_container = b3dm_magic \<and>
   28 + le_u32 spec_container 12 + le_u32 spec_container 16 + le_u32 spec_container 20 +
     le_u32 spec_container 24 < int (length spec_container) \<and>
   extract_b3dm_to_glb_bytes spec_container = Inr (replicate 52 0x67) \<and>
   glb_offset_of spec_container = 48 \<and> end_of spec_container = 100"
proof -
  have f: "glb_offset_of spec_container = 48" "end_of spec_container = 100"
    by (simp_all add: glb_offset_of_def end_of_def spec_container_facts)
  have d: "take 52 (drop 48 spec_container) = replicate 52 0x67"
    by (simp add: spec_container_def b3dm_header_def b3dm_magic_def u32_bytes_def)
  show ?thesis
    using parse_payload_range [of spec_container] f d
    by (simp add: spec_container_facts)
qed

text \<open>On every buffer that passes both checks and whose payload offset reaches its end, the
  walker scripts return the empty payload and g2h.py raises.\<close>

lemma offset_at_end:
  assumes "28 \<le> length data" and "take 4 data = b3dm_magic"
    and "int (length data) \<le> glb_offset_of data"
  shows "extract_b3dm_to_glb_bytes data = Inr []"
    and "extract_b3dm_to_glb_bytes_kaggle data = Inr []"
    and "extract_b3dm_glb data = Inl OffsetOutOfRange"
proof -
  have "end_of data = int (length data)"
    using assms(3) by (simp add: end_of_def)
  then have "py_slice data (glb_offset_of data) (end_of data) = []"
    using assms(3) by (simp add: py_slice_def py_index_def)
  then show "extract_b3dm_to_glb_bytes data = Inr []"
    and "extract_b3dm_to_glb_bytes_kaggle data = Inr []"
    using assms(1,2) by (simp_all add: extract_scramble_accepts extract_kaggle_accepts)
  show "extract_b3dm_glb data = Inl OffsetOutOfRange"
    using assms by (simp add: extract_g2h_accepts)
qed

lemma header_only_facts:
  "length header_only = 28" "take 4 header_only = b3dm_magic"
  "glb_offset_of header_only = 28" "end_of header_only = 28"
  by (simp_all add: header_only_def b3dm_header_def b3dm_magic_def u32_bytes_def le_u32_def
      glb_offset_of_def end_of_def)

text \<open>
  Claim C2.  The claim asks for an offset error when the payload offset reaches the end of
  the buffer.  On a container that is a header and nothing else (offset 28, length 28) the
  parser of g2h.py raises it; the parser of the two walker scripts returns the empty payload.
\<close>

theorem offset_check_missing:
  "extract_b3dm_to_glb_bytes header_only = Inr [] \<and>
   extract_b3dm_to_glb_bytes_kaggle header_only = Inr [] \<and>
   extract_b3dm_glb header_only = Inl OffsetOutOfRange"
  by (simp add: extract_scramble_accepts extract_kaggle_accepts extract_g2h_accepts
      header_only_facts py_slice_def py_index_def)

lemma stale_length_facts:
  "length stale_length_container = 32" "take 4 stale_length_container = b3dm_magic"
  "glb_offset_of stale_length_container = 28" "end_of stale_length_container = 32"
  "le_u32 stale_length_container 8 = 28"
  by (simp_all add: stale_length_container_def b3dm_header_def b3dm_magic_def u32_bytes_def
      le_u32_def glb_offset_of_def end_of_def)

lemma stale_length_payload:
  "py_slice stale_length_container 28 32 = [0x67, 0x6C, 0x54, 0x46]"
  "py_slice stale_length_container 28 28 = []"
  by (simp_all add: py_slice_def py_index_def stale_length_container_def b3dm_header_def
      b3dm_magic_def u32_bytes_def)

text \<open>
  Claim C6.  The claim is that the three parsers agree on every buffer.  On a container whose
  declared length (28) does not exceed the payload offset (28), followed by four payload
  bytes, the walker scripts return the four bytes and g2h.py returns the empty payload; on the
  header with nothing behind it the walker scripts return the empty payload and g2h.py raises.
\<close>

theorem extractors_disagree:
  "extract_b3dm_to_glb_bytes stale_length_container = Inr [0x67, 0x6C, 0x54, 0x46] \<and>
   extract_b3dm_to_glb_bytes_kaggle stale_length_container = Inr [0x67, 0x6C, 0x54, 0x46] \<and>
   extract_b3dm_glb stale_length_container = Inr [] \<and>
   extract_b3dm_glb stale_length_container \<noteq> extract_b3dm_to_glb_bytes stale_length_container \<and>
   extract_b3dm_glb header_only \<noteq> extract_b3dm_to_glb_bytes header_only"
proof -
  have h: "extract_b3dm_to_glb_bytes header_only = Inr []"
    "extract_b3dm_glb header_only = Inl OffsetOutOfRange"
    by (simp_all add: extract_scramble_accepts extract_g2h_accepts
      header_only_facts py_slice_def py_index_def)
  show ?thesis
    by (simp add: extract_scramble_accepts extract_kaggle_accepts extract_g2h_accepts
      stale_length_facts stale_length_payload h)
qed

text \<open>Where the three do agree: the two walker scripts everywhere (\<open>extract_kaggle_eq\<close>),
  g2h.py with them on the too-small and wrong-magic buffers and on the buffers below.\<close>

lemma extract_b3dm_glb_agrees:
  assumes "28 \<le> length data" and "take 4 data = b3dm_magic"
    and "glb_offset_of data < int (length data)"
    and "int (length data) < le_u32 data 8 \<or> glb_offset_of data < le_u32 data 8"
  shows "extract_b3dm_glb data = extract_b3dm_to_glb_bytes data"
proof -
  have o: "0 \<le> glb_offset_of data"
    using le_u32_nonneg [of data 12] le_u32_nonneg [of data 16]
      le_u32_nonneg [of data 20] le_u32_nonneg [of data 24]
    by (simp add: glb_offset_of_def)
  have "py_slice_from data (glb_offset_of data) = py_slice data (glb_offset_of data) (int (length data))"
    using o by (simp add: py_slice_from_def py_slice_def py_index_def)
  then show ?thesis
    using assms
    by (auto simp: extract_scramble_accepts extract_g2h_accepts end_of_def)
qed

section \<open>Properties of the rectangle test\<close>

lemma bbox_intersect_four:
  "bbox_intersect (west # south # east # north # heights) (lon_min, lat_min, lon_max, lat_max) =
     Inr (\<not> (lon_max < west \<or> lon_min > east \<or> lat_max < south \<or> lat_min > north))"
  by (simp add: bbox_intersect_def)

text \<open>
  Claim C5.  On a region with its four horizontal bounds the test is the negation of the four
  strict separations; it does not depend on what follows the four bounds (the heights); and a
  region whose west bound equals the box's east bound, the rectangles overlapping in latitude,
  intersects.
\<close>

theorem bbox_intersect_formula:
  "bbox_intersect (west # south # east # north # heights) (lon_min, lat_min, lon_max, lat_max) =
     Inr (\<not> (lon_max < west \<or> lon_min > east \<or> lat_max < south \<or> lat_min > north)) \<and>
   bbox_intersect [west, south, east, north, min_height, max_height] (lon_min, lat_min, lon_max, lat_max) =
     bbox_intersect [west, south, east, north, min_height', max_height'] (lon_min, lat_min, lon_max, lat_max) \<and>
   (west = lon_max \<and> lon_min \<le> lon_max \<and> west \<le> east \<and> south \<le> lat_max \<and> lat_min \<le> north \<longrightarrow>
     bbox_intersect [west, south, east, north, min_height, max_height] (lon_min, lat_min, lon_max, lat_max) = Inr True)"
  by (simp add: bbox_intersect_four)

theorem bbox_intersect_formula_witness:
  "(139.7014 :: real) = 139.7014 \<and> (139.6996 :: real) \<le> 139.7014 \<and> (139.7014 :: real) \<le> 139.71 \<and>
   (35.65 :: real) \<le> 35.6602 \<and> (35.6588 :: real) \<le> 35.66 \<and>
   bbox_intersect [139.7014, 35.65, 139.71, 35.66, 0, 100] (139.6996, 35.6588, 139.7014, 35.6602) = Inr True \<and>
   bbox_intersect [139.7015, 35.65, 139.71, 35.66, 0, 100] (139.6996, 35.6588, 139.7014, 35.6602) = Inr False"
  using bbox_intersect_formula [where west = "139.7014" and south = "35.65" and east = "139.71"
      and north = "35.66" and heights = "[0, 100]" and lon_min = "139.6996" and lat_min = "35.6588"
      and lon_max = "139.7014" and lat_max = "35.6602" and min_height = 0 and max_height = 100
      and min_height' = 0 and max_height' = 100]
    bbox_intersect_formula [where west = "139.7015" and south = "35.65" and east = "139.71"
      and north = "35.66" and heights = "[0, 100]" and lon_min = "139.6996" and lat_min = "35.6588"
      and lon_max = "139.7014" and lat_max = "35.6602" and min_height = 0 and max_height = 100
      and min_height' = 0 and max_height' = 100]
  by simp

text \<open>
  Claim C8.  Testing rectangle A as the region against B as the box gives what testing B as
  the region against A as the box gives (the bounds of each in the order the role requires:
  west, south, east, north for both).
\<close>

theorem bbox_intersect_symmetric:
  "bbox_intersect (a_west # a_south # a_east # a_north # a_heights) (b_west, b_south, b_east, b_north) =
   bbox_intersect (b_west # b_south # b_east # b_north # b_heights) (a_west, a_south, a_east, a_north)"
  by (auto simp: bbox_intersect_four)

section \<open>The two walkers are one\<close>

lemma py_or_twice:
  "truthy (py_or (py_or a b) a) = truthy (py_or a b)"
  "truthy (py_or a b) \<Longrightarrow> py_or (py_or a b) a = py_or a b"
  by (auto simp: py_or_def)

lemma handle_file_kaggle_eq: "handle_file_kaggle env p st = handle_file env p st"
  by (auto simp: handle_file_kaggle_def handle_file_def extract_kaggle_eq
      split: prod.splits option.splits sum.splits)

lemma process_content_kaggle_eq: "process_content_kaggle env b c st = process_content env b c st"
  by (simp add: process_content_kaggle_def process_content_def handle_file_kaggle_eq py_or_twice Let_def)

lemma process_tile_kaggle_eq:
  "process_tile_kaggle env b t st = process_tile env b t st"
  "process_tiles_kaggle env b ts st = process_tiles env b ts st"
proof (induction env b t st and env b ts st rule: process_tile_process_tiles.induct)
  case (1 env base_path bv c ch st)
  then show ?case
    by (auto simp: process_content_kaggle_eq split: sum.splits prod.splits option.splits)
next
  case (2 env base_path st)
  then show ?case by simp
next
  case (3 env base_path child rest st)
  then show ?case
    by (auto split: prod.splits option.splits)
qed

lemma walk_tilesets_kaggle_eq: "walk_tilesets_kaggle env ms st = walk_tilesets env ms st"
proof (induction env ms st rule: walk_tilesets.induct)
  case (4 env parent ts rest st)
  then show ?case
    by (auto simp: process_tile_kaggle_eq split: prod.splits option.splits)
next
  case (5 env parent root_tile ts rest st)
  then show ?case
    by (auto simp: process_tile_kaggle_eq split: prod.splits option.splits)
qed simp_all

section \<open>What handling one file does\<close>

lemma handle_file_seen:
  "p \<in> processed_files st \<Longrightarrow> handle_file env p st = (None, st)"
  by (simp add: handle_file_def)

lemma handle_file_other:
  "lower (path_suffix p) \<notin> {''.b3dm'', ''.glb'', ''.gltf''} \<Longrightarrow> handle_file env p st = (None, st)"
  by (simp add: handle_file_def)

lemma handle_file_extracts:
  assumes "lower (path_suffix p) = ''.b3dm''" and "p \<notin> processed_files st"
    and "files st p = Some data" and "extract_b3dm_to_glb_bytes data = Inr glb"
  shows "handle_file env p st =
    (None, st\<lparr>extracted := extracted st + 1,
               processed_files := insert p (processed_files st),
               files := (files st)(path_join (out_dir env) (path_stem p @ ''.glb'') \<mapsto> glb),
               trace := trace st @ [Added p, Read p,
                 Wrote p (path_join (out_dir env) (path_stem p @ ''.glb'')), Counted p]\<rparr>)"
  using assms
  by (simp add: handle_file_def add_processed_def read_bytes_def write_bytes_def
      count_extracted_def Let_def)

lemma handle_file_rejects:
  assumes "lower (path_suffix p) = ''.b3dm''" and "p \<notin> processed_files st"
    and "files st p = None \<or> (\<exists>data e. files st p = Some data \<and> extract_b3dm_to_glb_bytes data = Inl e)"
  shows "handle_file env p st =
    (None, st\<lparr>processed_files := insert p (processed_files st),
               trace := trace st @ [Added p, Read p]\<rparr>)"
  using assms
  by (auto simp: handle_file_def add_processed_def read_bytes_def)

lemma handle_file_copies:
  assumes "lower (path_suffix p) \<in> {''.glb'', ''.gltf''}" and "p \<notin> processed_files st"
    and "files st p = Some data" and "p \<noteq> path_join (out_dir env) (path_name p)"
  shows "handle_file env p st =
    (None, st\<lparr>extracted := extracted st + 1,
               processed_files := insert p (processed_files st),
               files := (files st)(path_join (out_dir env) (path_name p) \<mapsto> data),
               trace := trace st @ [Added p,
                 Copied p (path_join (out_dir env) (path_name p)), Counted p]\<rparr>)"
  using assms
  by (auto simp: handle_file_def add_processed_def copy2_def count_extracted_def Let_def)

lemma handle_file_refuses:
  assumes "lower (path_suffix p) \<in> {''.glb'', ''.gltf''}" and "p \<notin> processed_files st"
    and "files st p = None \<or> p = path_join (out_dir env) (path_name p)"
  shows "\<exists>e. handle_file env p st =
    (Some e, st\<lparr>processed_files := insert p (processed_files st),
                 trace := trace st @ [Added p]\<rparr>)"
  using assms
  by (auto simp: handle_file_def add_processed_def copy2_def Let_def split: option.splits)

lemma handle_file_cases [consumes 1, case_names unchanged rejected extracted refused copied]:
  assumes "handle_file env p st = (r, st')"
  obtains "r = None" and "st' = st"
      and "p \<in> processed_files st \<or> lower (path_suffix p) \<notin> {''.b3dm'', ''.glb'', ''.gltf''}"
  | "r = None" and "p \<notin> processed_files st" and "lower (path_suffix p) = ''.b3dm''"
      and "st' = st\<lparr>processed_files := insert p (processed_files st),
                     trace := trace st @ [Added p, Read p]\<rparr>"
  | data glb where "r = None" and "p \<notin> processed_files st"
      and "lower (path_suffix p) = ''.b3dm''"
      and "files st p = Some data" and "extract_b3dm_to_glb_bytes data = Inr glb"
      and "st' = st\<lparr>extracted := extracted st + 1,
               processed_files := insert p (processed_files st),
               files := (files st)(path_join (out_dir env) (path_stem p @ ''.glb'') \<mapsto> glb),
               trace := trace st @ [Added p, Read p,
                 Wrote p (path_join (out_dir env) (path_stem p @ ''.glb'')), Counted p]\<rparr>"
  | e where "r = Some e" and "p \<notin> processed_files st"
      and "lower (path_suffix p) \<in> {''.glb'', ''.gltf''}"
      and "st' = st\<lparr>processed_files := insert p (processed_files st),
                     trace := trace st @ [Added p]\<rparr>"
  | data where "r = None" and "p \<notin> processed_files st"
      and "lower (path_suffix p) \<in> {''.glb'', ''.gltf''}" and "files st p = Some data"
      and "st' = st\<lparr>extracted := extracted st + 1,
               processed_files := insert p (processed_files st),
               files := (files st)(path_join (out_dir env) (path_name p) \<mapsto> data),
               trace := trace st @ [Added p,
                 Copied p (path_join (out_dir env) (path_name p)), Counted p]\<rparr>"
proof (cases "p \<in> processed_files st")
  case True
  then show ?thesis
    using assms that(1) by (simp add: handle_file_seen)
next
  case new: False
  show ?thesis
  proof (cases "lower (path_suffix p) = ''.b3dm''")
    case b3dm: True
    show ?thesis
    proof (cases "\<exists>data glb. files st p = Some data \<and> extract_b3dm_to_glb_bytes data = Inr glb")
      case True
      then obtain data glb where "files st p = Some data" "extract_b3dm_to_glb_bytes data = Inr glb"
        by blast
      then show ?thesis
        using assms that(3) [of data glb] new b3dm handle_file_extracts [OF b3dm new, of data glb env]
        by simp
    next
      case False
      then have "files st p = None \<or>
          (\<exists>data e. files st p = Some data \<and> extract_b3dm_to_glb_bytes data = Inl e)"
        by (cases "files st p"; cases "extract_b3dm_to_glb_bytes (the (files st p))") auto
      then show ?thesis
        using assms that(2) new b3dm handle_file_rejects [OF b3dm new, of env]
        by simp
    qed
  next
    case other: False
    show ?thesis
    proof (cases "lower (path_suffix p) \<in> {''.glb'', ''.gltf''}")
      case asset: True
      show ?thesis
      proof (cases "files st p = None \<or> p = path_join (out_dir env) (path_name p)")
        case True
        then show ?thesis
          using assms that(4) new asset handle_file_refuses [OF asset new, of env]
          by auto
      next
        case False
        then obtain data where "files st p = Some data" "p \<noteq> path_join (out_dir env) (path_name p)"
          by auto
        then show ?thesis
          using assms that(5) [of data] new asset handle_file_copies [OF asset new, of data env]
          by simp
      qed
    next
      case False
      then show ?thesis
        using assms that(1) other handle_file_other [of p env st] by simp
    qed
  qed
qed

section \<open>What is kept along the walk\<close>

text \<open>A property of the state that handling a file keeps is kept by the whole walk.\<close>

lemma process_content_preserves:
  assumes "\<forall>p st r st'. P st \<longrightarrow> handle_file env p st = (r, st') \<longrightarrow> P st'"
    and "P st" and "process_content env b c st = (r, st')"
  shows "P st'"
proof (cases "truthy (py_or (py_or (uri c) (url c)) (uri c)) \<and>
    files st (resolve env b (the (py_or (py_or (uri c) (url c)) (uri c)))) \<noteq> None")
  case True
  then have "handle_file env (resolve env b (the (py_or (py_or (uri c) (url c)) (uri c)))) st = (r, st')"
    using assms(3) by (simp add: process_content_def Let_def)
  then show ?thesis
    using assms(1,2) by blast
next
  case False
  then have "st' = st"
    using assms(3) by (auto simp: process_content_def Let_def split: if_splits)
  then show ?thesis
    using assms(2) by simp
qed

lemma process_tile_preserves:
  "(\<forall>p st r st'. P st \<longrightarrow> handle_file env p st = (r, st') \<longrightarrow> P st') \<Longrightarrow>
     P st \<Longrightarrow> process_tile env b t st = (r, st') \<Longrightarrow> P st'"
  "(\<forall>p st r st'. P st \<longrightarrow> handle_file env p st = (r, st') \<longrightarrow> P st') \<Longrightarrow>
     P st \<Longrightarrow> process_tiles env b ts st = (r, st') \<Longrightarrow> P st'"
proof (induction env b t st and env b ts st arbitrary: r st' and r st'
    rule: process_tile_process_tiles.induct)
  case (1 env base_path bv c ch st)
  show ?case
  proof (cases "tile_intersects (target_bbox env) bv")
    case (Inl e)
    then show ?thesis using "1.prems"(2,3) by simp
  next
    case (Inr intersects)
    obtain r1 st1 where c: "(if intersects \<and> c \<noteq> None then process_content env base_path (the c) st
                 else (None, st)) = (r1, st1)"
      by (cases "if intersects \<and> c \<noteq> None then process_content env base_path (the c) st
                 else (None, st)") auto
    have ok: "P st1"
    proof (cases "intersects \<and> c \<noteq> None")
      case True
      then have "process_content env base_path (the c) st = (r1, st1)"
        using c by simp
      then show ?thesis
        using process_content_preserves [of P env st base_path "the c" r1 st1] "1.prems"(1,2)
        by blast
    next
      case False
      then have "st1 = st"
        using c by (simp split: if_splits)
      then show ?thesis using "1.prems"(2) by simp
    qed
    show ?thesis
    proof (cases r1)
      case None
      then have "process_tiles env base_path ch st1 = (r, st')"
        using "1.prems"(3) Inr c by simp
      then show ?thesis
        using "1.IH" [OF Inr c [symmetric] None "1.prems"(1) ok] by blast
    next
      case (Some e)
      then show ?thesis
        using "1.prems"(3) Inr c ok by simp
    qed
  qed
next
  case (2 env base_path st)
  then show ?case by simp
next
  case (3 env base_path child rest st)
  obtain r1 st1 where c: "process_tile env base_path child st = (r1, st1)"
    by (cases "process_tile env base_path child st") auto
  have ok: "P st1"
    using "3.IH"(1) [OF "3.prems"(1,2) c] by blast
  show ?case
  proof (cases r1)
    case None
    then show ?thesis
      using "3.IH"(2) [OF c [symmetric] None "3.prems"(1) ok] "3.prems"(3) c by simp
  next
    case (Some e)
    then show ?thesis
      using "3.prems"(3) c ok by simp
  qed
qed

lemma walk_tilesets_preserves:
  "(\<forall>p st r st'. P st \<longrightarrow> handle_file env p st = (r, st') \<longrightarrow> P st') \<Longrightarrow>
     P st \<Longrightarrow> walk_tilesets env ms st = (r, st') \<Longrightarrow> P st'"
proof (induction env ms st arbitrary: r st' rule: walk_tilesets.induct)
  case (4 env parent ts rest st)
  obtain r1 st1 where c: "process_tiles env parent ts st = (r1, st1)"
    by (cases "process_tiles env parent ts st") auto
  have ok: "P st1"
    using process_tile_preserves(2) [of P env st parent ts r1 st1] "4.prems"(1,2) c by blast
  show ?case
  proof (cases r1)
    case None
    then show ?thesis
      using "4.IH" [OF c [symmetric] None "4.prems"(1) ok] "4.prems"(3) c by simp
  next
    case (Some e)
    then show ?thesis
      using "4.prems"(3) c ok by simp
  qed
next
  case (5 env parent root_tile ts rest st)
  obtain r1 st1 where c: "process_tile env parent root_tile st = (r1, st1)"
    by (cases "process_tile env parent root_tile st") auto
  have ok: "P st1"
    using process_tile_preserves(1) [of P env st parent root_tile r1 st1] "5.prems"(1,2) c by blast
  show ?case
  proof (cases r1)
    case None
    then show ?thesis
      using "5.IH" [OF c [symmetric] None "5.prems"(1) ok] "5.prems"(3) c by simp
  next
    case (Some e)
    then show ?thesis
      using "5.prems"(3) c ok by simp
  qed
qed simp_all

section \<open>At most once\<close>

lemma sources_of_append: "sources_of (xs @ ys) = sources_of xs @ sources_of ys"
  by (induction xs rule: sources_of.induct) simp_all

lemma counted_of_append: "counted_of (xs @ ys) = counted_of xs @ counted_of ys"
  by (induction xs rule: counted_of.induct) simp_all

lemma added_of_append: "added_of (xs @ ys) = added_of xs @ added_of ys"
  by (induction xs rule: added_of.induct) simp_all

lemma added_before_append:
  "added_before A (xs @ ys) \<longleftrightarrow> added_before A xs \<and> added_before (A \<union> set (added_of xs)) ys"
  by (induction A xs rule: added_before.induct) auto

lemma trace_ok_initial: "trace_ok (initial_state fs)"
  by (simp add: trace_ok_def initial_state_def)

lemma handle_file_trace_ok:
  assumes "trace_ok st" and "handle_file env p st = (r, st')"
  shows "trace_ok st'"
  using assms(2)
proof (cases rule: handle_file_cases)
  case unchanged
  then show ?thesis using assms(1) by simp
next
  case rejected
  then show ?thesis
    using assms(1)
    by (auto simp: trace_ok_def sources_of_append counted_of_append added_before_append)
next
  case (extracted glb)
  then show ?thesis
    using assms(1)
    by (auto simp: trace_ok_def sources_of_append counted_of_append added_before_append)
next
  case (refused e)
  then show ?thesis
    using assms(1)
    by (auto simp: trace_ok_def sources_of_append counted_of_append added_before_append)
next
  case (copied data)
  then show ?thesis
    using assms(1)
    by (auto simp: trace_ok_def sources_of_append counted_of_append added_before_append)
qed

lemma walk_tilesets_trace_ok: "trace_ok (snd (walk_tilesets env ms (initial_state fs)))"
proof -
  have "\<forall>p st r st'. trace_ok st \<longrightarrow> handle_file env p st = (r, st') \<longrightarrow> trace_ok st'"
    using handle_file_trace_ok by blast
  then show ?thesis
    using walk_tilesets_preserves [of trace_ok env "initial_state fs" ms
      "fst (walk_tilesets env ms (initial_state fs))" "snd (walk_tilesets env ms (initial_state fs))"]
      trace_ok_initial
    by simp
qed

section \<open>What the walk never undoes\<close>

lemma handle_file_grows:
  assumes "handle_file env p st = (r, st')"
  shows "processed_files st \<subseteq> processed_files st' \<and> dom (files st) \<subseteq> dom (files st')"
  using assms by (cases rule: handle_file_cases) auto

lemma handle_file_marks:
  assumes "handle_file env p st = (r, st')"
    and "lower (path_suffix p) \<in> {''.b3dm'', ''.glb'', ''.gltf''}"
  shows "p \<in> processed_files st'"
  using assms by (cases rule: handle_file_cases) auto

lemma grows_step:
  assumes "processed_files st \<subseteq> processed_files s \<and> dom (files st) \<subseteq> dom (files s)"
    and "handle_file env p s = (r, s')"
  shows "processed_files st \<subseteq> processed_files s' \<and> dom (files st) \<subseteq> dom (files s')"
  using assms(1) handle_file_grows [OF assms(2)] by (meson subset_trans)

lemma process_content_exists:
  assumes "truthy (py_or (uri c) (url c))"
    and "files st (resolve env b (the (py_or (uri c) (url c)))) \<noteq> None"
  shows "process_content env b c st = handle_file env (resolve env b (the (py_or (uri c) (url c)))) st"
  using assms by (simp add: process_content_def py_or_twice Let_def)

lemma process_content_grows:
  assumes "process_content env b c st = (r, st')"
  shows "processed_files st \<subseteq> processed_files st' \<and> dom (files st) \<subseteq> dom (files st')"
proof -
  let ?P = "\<lambda>s. processed_files st \<subseteq> processed_files s \<and> dom (files st) \<subseteq> dom (files s)"
  have step: "\<forall>p s r s'. ?P s \<longrightarrow> handle_file env p s = (r, s') \<longrightarrow> ?P s'"
    by (intro allI impI) (rule grows_step)
  have "?P st" by simp
  from process_content_preserves [of ?P, OF step this assms] show ?thesis .
qed

lemma process_tile_grows:
  assumes "process_tile env b t st = (r, st')"
  shows "processed_files st \<subseteq> processed_files st' \<and> dom (files st) \<subseteq> dom (files st')"
proof -
  let ?P = "\<lambda>s. processed_files st \<subseteq> processed_files s \<and> dom (files st) \<subseteq> dom (files s)"
  have step: "\<forall>p s r s'. ?P s \<longrightarrow> handle_file env p s = (r, s') \<longrightarrow> ?P s'"
    by (intro allI impI) (rule grows_step)
  have "?P st" by simp
  from process_tile_preserves(1) [of ?P, OF step this assms] show ?thesis .
qed

lemma process_tiles_grows:
  assumes "process_tiles env b ts st = (r, st')"
  shows "processed_files st \<subseteq> processed_files st' \<and> dom (files st) \<subseteq> dom (files st')"
proof -
  let ?P = "\<lambda>s. processed_files st \<subseteq> processed_files s \<and> dom (files st) \<subseteq> dom (files s)"
  have step: "\<forall>p s r s'. ?P s \<longrightarrow> handle_file env p s = (r, s') \<longrightarrow> ?P s'"
    by (intro allI impI) (rule grows_step)
  have "?P st" by simp
  from process_tile_preserves(2) [of ?P, OF step this assms] show ?thesis .
qed

section \<open>Every node of the tree is visited\<close>

lemma process_tile_unfold:
  assumes "process_tile env b (Tile bv c ch) st = (None, st')"
  obtains i st1 where "tile_intersects (target_bbox env) bv = Inr i"
    and "(if i \<and> c \<noteq> None then process_content env b (the c) st else (None, st)) = (None, st1)"
    and "process_tiles env b ch st1 = (None, st')"
proof (cases "tile_intersects (target_bbox env) bv")
  case (Inl e)
  then show ?thesis using assms by simp
next
  case (Inr i)
  obtain r1 st1 where own:
    "(if i \<and> c \<noteq> None then process_content env b (the c) st else (None, st)) = (r1, st1)"
    by (cases "if i \<and> c \<noteq> None then process_content env b (the c) st else (None, st)") auto
  show ?thesis
  proof (cases r1)
    case None
    then show ?thesis
      using that [of i st1] Inr own assms by simp
  next
    case (Some e)
    then show ?thesis
      using Inr own assms by simp
  qed
qed

lemma process_tiles_unfold:
  assumes "process_tiles env b (child # rest) st = (None, st')"
  obtains st1 where "process_tile env b child st = (None, st1)"
    and "process_tiles env b rest st1 = (None, st')"
proof -
  obtain r1 st1 where first: "process_tile env b child st = (r1, st1)"
    by (cases "process_tile env b child st") auto
  show ?thesis
  proof (cases r1)
    case None
    then show ?thesis
      using that [of st1] first assms by simp
  next
    case (Some e)
    then show ?thesis
      using first assms by simp
  qed
qed

lemma walk_reaches:
  "process_tile env b t st = (None, st') \<Longrightarrow> d \<in> set (subtiles t) \<Longrightarrow>
     tile_intersects (target_bbox env) (boundingVolume d) = Inr True \<Longrightarrow>
     content d = Some c \<Longrightarrow> truthy (py_or (uri c) (url c)) \<Longrightarrow>
     files st (resolve env b (the (py_or (uri c) (url c)))) \<noteq> None \<Longrightarrow>
     lower (path_suffix (resolve env b (the (py_or (uri c) (url c))))) \<in> {''.b3dm'', ''.glb'', ''.gltf''} \<Longrightarrow>
     resolve env b (the (py_or (uri c) (url c))) \<in> processed_files st'"
  "process_tiles env b ts st = (None, st') \<Longrightarrow> d \<in> set (concat (map subtiles ts)) \<Longrightarrow>
     tile_intersects (target_bbox env) (boundingVolume d) = Inr True \<Longrightarrow>
     content d = Some c \<Longrightarrow> truthy (py_or (uri c) (url c)) \<Longrightarrow>
     files st (resolve env b (the (py_or (uri c) (url c)))) \<noteq> None \<Longrightarrow>
     lower (path_suffix (resolve env b (the (py_or (uri c) (url c))))) \<in> {''.b3dm'', ''.glb'', ''.gltf''} \<Longrightarrow>
     resolve env b (the (py_or (uri c) (url c))) \<in> processed_files st'"
proof (induction env b t st and env b ts st arbitrary: st' and st'
    rule: process_tile_process_tiles.induct)
  case (1 env base_path bv c0 ch st)
  let ?p = "resolve env base_path (the (py_or (uri c) (url c)))"
  obtain i st1 where i: "tile_intersects (target_bbox env) bv = Inr i"
    and own: "(if i \<and> c0 \<noteq> None then process_content env base_path (the c0) st else (None, st)) = (None, st1)"
    and rest: "process_tiles env base_path ch st1 = (None, st')"
    using "1.prems"(1) by (rule process_tile_unfold)
  have g1: "dom (files st) \<subseteq> dom (files st1)"
  proof (cases "i \<and> c0 \<noteq> None")
    case True
    then have "process_content env base_path (the c0) st = (None, st1)"
      using own by simp
    then show ?thesis
      using process_content_grows by blast
  next
    case False
    then have "st1 = st" using own by (simp split: if_splits)
    then show ?thesis by simp
  qed
  from "1.prems"(2) consider "d = Tile bv c0 ch" | "d \<in> set (concat (map subtiles ch))"
    by auto
  then show ?case
  proof cases
    case 1
    then have "i" "c0 = Some c"
      using i "1.prems"(3,4) by simp_all
    then have "handle_file env ?p st = (None, st1)"
      using own process_content_exists [OF "1.prems"(5,6)] by simp
    then have "?p \<in> processed_files st1"
      using handle_file_marks "1.prems"(7) by blast
    then show ?thesis
      using process_tiles_grows [OF rest] by blast
  next
    case 2
    have "files st1 ?p \<noteq> None"
      using g1 "1.prems"(6) by (auto simp: dom_def)
    then show ?thesis
      using "1.IH" [OF i own [symmetric] refl rest 2 "1.prems"(3,4,5) _ "1.prems"(7)] by blast
  qed
next
  case (2 env base_path st)
  then show ?case by simp
next
  case (3 env base_path child rest st)
  let ?p = "resolve env base_path (the (py_or (uri c) (url c)))"
  obtain st1 where first: "process_tile env base_path child st = (None, st1)"
    and others: "process_tiles env base_path rest st1 = (None, st')"
    using "3.prems"(1) by (rule process_tiles_unfold)
  from "3.prems"(2) consider "d \<in> set (subtiles child)" | "d \<in> set (concat (map subtiles rest))"
    by auto
  then show ?case
  proof cases
    case 1
    have "?p \<in> processed_files st1"
      using "3.IH"(1) [OF first 1 "3.prems"(3,4,5,6,7)] .
    then show ?thesis
      using process_tiles_grows [OF others] by blast
  next
    case 2
    have "files st1 ?p \<noteq> None"
      using process_tile_grows [OF first] "3.prems"(6) by (auto simp: dom_def)
    then show ?thesis
      using "3.IH"(2) [OF first [symmetric] refl others 2 "3.prems"(3,4,5) _ "3.prems"(7)] by blast
  qed
qed

section \<open>The example runs, step by step\<close>

lemma char_of_nat_eq: "char_of (n::nat) = c \<longleftrightarrow> n mod 256 = of_char c"
  by (simp add: char_of_eq_iff take_bit_eq_mod)

lemma demo_paths:
  "lower (path_suffix ''/d/a.b3dm'') = ''.b3dm''" "path_stem ''/d/a.b3dm'' = ''a''"
  "lower (path_suffix ''/e/a.b3dm'') = ''.b3dm''" "path_stem ''/e/a.b3dm'' = ''a''"
  "path_name ''/d/a.b3dm'' = ''a.b3dm''" "path_name ''/e/a.b3dm'' = ''a.b3dm''"
  "lower (path_suffix ''/d/b.glb'') = ''.glb''" "path_name ''/d/b.glb'' = ''b.glb''"
  "lower (path_suffix ''/d/c.glb'') = ''.glb''" "path_name ''/d/c.glb'' = ''c.glb''"
  "lower (path_suffix ''/e/b.glb'') = ''.glb''" "path_name ''/e/b.glb'' = ''b.glb''"
  by (simp_all add: lower_def lower_char_def path_suffix_def path_stem_def path_name_def
      rfind_dot_def char_of_nat_eq)

lemma spec_container_payload:
  "extract_b3dm_to_glb_bytes spec_container = Inr (replicate 52 0x67)"
proof -
  have "py_slice spec_container 48 100 = replicate 52 0x67"
    by (simp add: py_slice_def py_index_def spec_container_def b3dm_header_def b3dm_magic_def
        u32_bytes_def)
  then show ?thesis
    by (simp add: extract_scramble_accepts spec_container_facts glb_offset_of_def end_of_def)
qed

lemma stale_length_container_payload:
  "extract_b3dm_to_glb_bytes stale_length_container = Inr [0x67, 0x6C, 0x54, 0x46]"
  by (simp add: extract_scramble_accepts stale_length_facts stale_length_payload)

lemma demo_regions:
  "tile_intersects TARGET_BBOX (Some (BoundingVolume (Some near_region))) = Inr True"
  "tile_intersects TARGET_BBOX (Some (BoundingVolume (Some far_region))) = Inr False"
  by (simp_all add: tile_intersects_def truthy_def bbox_intersect_def TARGET_BBOX_def
      near_region_def far_region_def)

lemma tile_with_content:
  assumes "tile_intersects (target_bbox env) bv = Inr True" and "u \<noteq> []"
    and "files st (resolve env b u) \<noteq> None"
  shows "process_tile env b (Tile bv (Some (Content (Some u) None)) ch) st =
    (case handle_file env (resolve env b u) st of
       (Some e, st') \<Rightarrow> (Some e, st')
     | (None, st') \<Rightarrow> process_tiles env b ch st')"
  using assms
  by (simp add: process_content_def py_or_def truthy_def)

lemma demo_env_fields:
  "target_bbox demo_env = TARGET_BBOX" "out_dir demo_env = ''/out''"
  "resolve demo_env b u = b @ ''/'' @ u"
  by (simp_all add: demo_env_def)

lemma tile_intersects_None: "tile_intersects box None = Inr True"
  by (simp add: tile_intersects_def truthy_def)

lemma tile_plain: "process_tile env b (Tile None None ch) st = process_tiles env b ch st"
  by (simp add: tile_intersects_None)

lemma tile_outside:
  "tile_intersects (target_bbox env) bv = Inr False \<Longrightarrow>
   process_tile env b (Tile bv c ch) st = process_tiles env b ch st"
  by simp

lemma tile_inside:
  "tile_intersects (target_bbox env) bv = Inr True \<Longrightarrow>
   process_tile env b (Tile bv c ch) st =
     (case (if c \<noteq> None then process_content env b (the c) st else (None, st)) of
        (Some e, st') \<Rightarrow> (Some e, st')
      | (None, st') \<Rightarrow> process_tiles env b ch st')"
  by simp

lemma demo_files_at:
  "demo_files ''/d/a.b3dm'' = Some spec_container" "demo_files ''/d/b.glb'' = Some [1, 2, 3]"
  "demo_files ''/d/c.glb'' = Some [4, 5]" "demo_files ''/e/b.glb'' = Some [6]"
  "demo_files ''/e/a.b3dm'' = Some stale_length_container"
  "demo_files ''/out/a.glb'' = None" "demo_files ''/out/b.glb'' = None"
  "demo_files ''/out/c.glb'' = None"
  by (simp_all add: demo_files_def)

lemma scenario_walk:
  "process_tile demo_env ''/d'' scenario_tree (initial_state demo_files) =
    (None, \<lparr>extracted = 2, processed_files = {''/d/c.glb'', ''/d/a.b3dm''},
       files = demo_files(''/out/a.glb'' \<mapsto> replicate 52 0x67, ''/out/c.glb'' \<mapsto> [4, 5]),
       trace = [Added ''/d/a.b3dm'', Read ''/d/a.b3dm'', Wrote ''/d/a.b3dm'' ''/out/a.glb'',
         Counted ''/d/a.b3dm'', Added ''/d/c.glb'', Copied ''/d/c.glb'' ''/out/c.glb'',
         Counted ''/d/c.glb'']\<rparr>)"
  by (simp add: scenario_tree_def initial_state_def demo_regions tile_with_content tile_outside
      tile_plain tile_intersects_None demo_env_fields demo_files_at
      handle_file_extracts [where data = spec_container and glb = "replicate 52 0x67"]
      handle_file_copies [where data = "[4, 5]"]
      demo_paths spec_container_payload path_join_def
      del: process_tile.simps)


lemma leaf_walk:
  assumes "u \<noteq> []" and "files st (resolve env b u) \<noteq> None"
  shows "process_tile env b (leaf u) st = handle_file env (resolve env b u) st"
proof -
  obtain r st' where h: "handle_file env (resolve env b u) st = (r, st')"
    by (cases "handle_file env (resolve env b u) st") auto
  have "process_tile env b (Tile None (Some (Content (Some u) None)) []) st =
    (case handle_file env (resolve env b u) st of
       (Some e, st') \<Rightarrow> (Some e, st')
     | (None, st') \<Rightarrow> process_tiles env b [] st')"
    by (rule tile_with_content [OF tile_intersects_None assms])
  then show ?thesis
    unfolding leaf_def
    by (cases r) (simp_all add: h del: process_tile.simps)
qed

lemma twice_walk:
  "walk_tilesets demo_env twice_manifests (initial_state demo_files) =
    (None, \<lparr>extracted = 1, processed_files = {''/d/a.b3dm''},
       files = demo_files(''/out/a.glb'' \<mapsto> replicate 52 0x67),
       trace = [Added ''/d/a.b3dm'', Read ''/d/a.b3dm'', Wrote ''/d/a.b3dm'' ''/out/a.glb'',
         Counted ''/d/a.b3dm'']\<rparr>)"
  by (simp add: twice_manifests_def initial_state_def tile_plain leaf_walk
      demo_env_fields demo_files_at handle_file_seen
      handle_file_extracts [where data = spec_container and glb = "replicate 52 0x67"]
      demo_paths spec_container_payload path_join_def
      del: process_tile.simps)

lemma same_name_walk:
  "walk_tilesets demo_env same_name_manifests (initial_state demo_files) =
    (None, \<lparr>extracted = 2, processed_files = {''/e/b.glb'', ''/d/b.glb''},
       files = demo_files(''/out/b.glb'' \<mapsto> [6]),
       trace = [Added ''/d/b.glb'', Copied ''/d/b.glb'' ''/out/b.glb'', Counted ''/d/b.glb'',
         Added ''/e/b.glb'', Copied ''/e/b.glb'' ''/out/b.glb'', Counted ''/e/b.glb'']\<rparr>)"
  by (simp add: same_name_manifests_def initial_state_def leaf_walk
      demo_env_fields demo_files_at
      handle_file_copies [where data = "[1, 2, 3]"] handle_file_copies [where data = "[6]"]
      demo_paths path_join_def
      del: process_tile.simps)

section \<open>The claims about the walk\<close>

text \<open>
  Claim C3.  Both scripts' \<^verbatim>\<open>process_tile\<close> are the same function.  A node whose test
  says it does not intersect leaves the state as it is and walks its children, with the same
  base path; a node whose test says it intersects handles its own content first and then
  walks its children in the same way (unless handling the content raised).  So every node of
  the tree is evaluated on its own: when the walk of a tree ends without an exception, the
  file of every node in it that intersects and refers to an existing container or asset is
  in the processed set, whatever the nodes above it are.
\<close>

theorem children_always_visited:
  "process_tile_kaggle env base_path t st = process_tile env base_path t st \<and>
   (tile_intersects (target_bbox env) bv = Inr False \<longrightarrow>
      process_tile env base_path (Tile bv c ch) st = process_tiles env base_path ch st) \<and>
   (tile_intersects (target_bbox env) bv = Inr True \<longrightarrow>
      process_tile env base_path (Tile bv c ch) st =
        (case (if c \<noteq> None then process_content env base_path (the c) st else (None, st)) of
           (Some e, st1) \<Rightarrow> (Some e, st1)
         | (None, st1) \<Rightarrow> process_tiles env base_path ch st1)) \<and>
   (process_tile env base_path t st = (None, st') \<and> d \<in> set (subtiles t) \<and>
    tile_intersects (target_bbox env) (boundingVolume d) = Inr True \<and>
    content d = Some dc \<and> truthy (py_or (uri dc) (url dc)) \<and>
    files st (resolve env base_path (the (py_or (uri dc) (url dc)))) \<noteq> None \<and>
    lower (path_suffix (resolve env base_path (the (py_or (uri dc) (url dc)))))
      \<in> {''.b3dm'', ''.glb'', ''.gltf''} \<longrightarrow>
    resolve env base_path (the (py_or (uri dc) (url dc))) \<in> processed_files st')"
  using walk_reaches(1) [of env base_path t st st' d dc]
  by (simp add: process_tile_kaggle_eq tile_outside tile_inside del: process_tile.simps)

theorem children_always_visited_witness:
  "tile_intersects (target_bbox demo_env) (Some (BoundingVolume (Some far_region))) = Inr False \<and>
   tile_intersects (target_bbox demo_env) (Some (BoundingVolume (Some near_region))) = Inr True \<and>
   process_tile demo_env ''/d''
     (Tile (Some (BoundingVolume (Some far_region))) (Some (Content (Some ''b.glb'') None))
        [Tile (Some (BoundingVolume (Some near_region))) (Some (Content (Some ''c.glb'') None)) []])
     (initial_state demo_files) =
   process_tiles demo_env ''/d''
     [Tile (Some (BoundingVolume (Some near_region))) (Some (Content (Some ''c.glb'') None)) []]
     (initial_state demo_files) \<and>
   fst (process_tile demo_env ''/d'' scenario_tree (initial_state demo_files)) = None \<and>
   Tile (Some (BoundingVolume (Some near_region))) (Some (Content (Some ''c.glb'') None)) []
     \<in> set (subtiles scenario_tree) \<and>
   ''/d/c.glb'' \<in> processed_files (snd (process_tile demo_env ''/d'' scenario_tree (initial_state demo_files))) \<and>
   ''/d/b.glb'' \<notin> processed_files (snd (process_tile demo_env ''/d'' scenario_tree (initial_state demo_files))) \<and>
   files (snd (process_tile demo_env ''/d'' scenario_tree (initial_state demo_files))) ''/out/b.glb'' = None \<and>
   extracted (snd (process_tile demo_env ''/d'' scenario_tree (initial_state demo_files))) = 2"
proof -
  let ?far = "Some (BoundingVolume (Some far_region))"
  let ?near = "Some (BoundingVolume (Some near_region))"
  let ?d = "Tile ?near (Some (Content (Some ''c.glb'') None)) []"
  let ?st' = "snd (process_tile demo_env ''/d'' scenario_tree (initial_state demo_files))"
  have far: "tile_intersects (target_bbox demo_env) ?far = Inr False"
    and near: "tile_intersects (target_bbox demo_env) ?near = Inr True"
    by (simp_all add: demo_env_fields demo_regions)
  have sub: "?d \<in> set (subtiles scenario_tree)"
    by (simp add: scenario_tree_def)
  have pre: "content ?d = Some (Content (Some ''c.glb'') None)"
    "truthy (py_or (uri (Content (Some ''c.glb'') None)) (url (Content (Some ''c.glb'') None)))"
    "resolve demo_env ''/d'' (the (py_or (uri (Content (Some ''c.glb'') None))
        (url (Content (Some ''c.glb'') None)))) = ''/d/c.glb''"
    "files (initial_state demo_files) ''/d/c.glb'' \<noteq> None"
    "lower (path_suffix ''/d/c.glb'') \<in> {''.b3dm'', ''.glb'', ''.gltf''}"
    by (simp_all add: py_or_def truthy_def demo_env_fields initial_state_def demo_files_at demo_paths)
  have run: "process_tile demo_env ''/d'' scenario_tree (initial_state demo_files) = (None, ?st')"
    by (simp add: scenario_walk)
  have reached: "''/d/c.glb'' \<in> processed_files ?st'"
    using children_always_visited [of demo_env "''/d''" scenario_tree "initial_state demo_files"
        ?near "Some (Content (Some ''c.glb'') None)" "[]" ?st' ?d "Content (Some ''c.glb'') None"]
      run sub near pre
    by simp
  have skipped: "process_tile demo_env ''/d''
     (Tile ?far (Some (Content (Some ''b.glb'') None)) [?d]) (initial_state demo_files) =
     process_tiles demo_env ''/d'' [?d] (initial_state demo_files)"
    using children_always_visited [of demo_env "''/d''" scenario_tree "initial_state demo_files"
        ?far "Some (Content (Some ''b.glb'') None)" "[?d]"] far
    by blast
  show ?thesis
    using far near skipped sub reached
    by (simp add: scenario_walk demo_files_at del: process_tile.simps process_tiles.simps)
qed

text \<open>
  Claim C4.  In the state a run over any manifests ends in (also when an exception ends it),
  the trace reads or copies no source path twice and counts no source path twice, the counter
  is the number of counted paths, every counted path was read or copied, every path read or
  copied is in the processed set, and every read, write, copy and count comes after the
  \<open>Added\<close> of its source path.  Both scripts' loops are the same function.
\<close>

theorem processed_at_most_once:
  "walk_tilesets_kaggle env manifests (initial_state fs) =
     walk_tilesets env manifests (initial_state fs) \<and>
   distinct (sources_of (trace (snd (walk_tilesets env manifests (initial_state fs))))) \<and>
   distinct (counted_of (trace (snd (walk_tilesets env manifests (initial_state fs))))) \<and>
   extracted (snd (walk_tilesets env manifests (initial_state fs))) =
     length (counted_of (trace (snd (walk_tilesets env manifests (initial_state fs))))) \<and>
   set (counted_of (trace (snd (walk_tilesets env manifests (initial_state fs)))))
     \<subseteq> set (sources_of (trace (snd (walk_tilesets env manifests (initial_state fs))))) \<and>
   set (sources_of (trace (snd (walk_tilesets env manifests (initial_state fs)))))
     \<subseteq> processed_files (snd (walk_tilesets env manifests (initial_state fs))) \<and>
   added_before {} (trace (snd (walk_tilesets env manifests (initial_state fs))))"
  using walk_tilesets_trace_ok [of env manifests fs]
  by (simp add: trace_ok_def walk_tilesets_kaggle_eq)

theorem processed_at_most_once_witness:
  "walk_tilesets_kaggle demo_env twice_manifests (initial_state demo_files) =
     walk_tilesets demo_env twice_manifests (initial_state demo_files) \<and>
   fst (walk_tilesets demo_env twice_manifests (initial_state demo_files)) = None \<and>
   trace (snd (walk_tilesets demo_env twice_manifests (initial_state demo_files))) =
     [Added ''/d/a.b3dm'', Read ''/d/a.b3dm'', Wrote ''/d/a.b3dm'' ''/out/a.glb'',
      Counted ''/d/a.b3dm''] \<and>
   extracted (snd (walk_tilesets demo_env twice_manifests (initial_state demo_files))) = 1 \<and>
   sources_of (trace (snd (walk_tilesets demo_env twice_manifests (initial_state demo_files)))) =
     [''/d/a.b3dm''] \<and>
   added_before {} (trace (snd (walk_tilesets demo_env twice_manifests (initial_state demo_files))))"
  using processed_at_most_once [of demo_env twice_manifests demo_files]
  by (simp add: twice_walk)

lemma handle_file_bbox: "handle_file (env\<lparr>target_bbox := box\<rparr>) p st = handle_file env p st"
  by (simp add: handle_file_def cong: prod.case_cong option.case_cong sum.case_cong)

lemma process_content_bbox:
  "process_content (env\<lparr>target_bbox := box\<rparr>) b c st = process_content env b c st"
  by (simp add: process_content_def handle_file_bbox Let_def)

lemma tile_intersects_regionless:
  "tile_intersects box (Some (BoundingVolume None)) = Inr True"
  "tile_intersects box (Some (BoundingVolume (Some []))) = Inr True"
  by (simp_all add: tile_intersects_def truthy_def)

lemma tile_intersects_region:
  "bbox_intersect r box = Inr i \<Longrightarrow> tile_intersects box (Some (BoundingVolume (Some r))) = Inr i"
  by (auto simp: tile_intersects_def truthy_def bbox_intersect_def)

section \<open>What processing the content of an intersecting node leaves behind\<close>

lemma handle_file_extends:
  assumes "handle_file env p s = (r, s')"
    and "length t \<le> length (trace s) \<and> take (length t) (trace s) = t \<and> n \<le> extracted s"
  shows "length t \<le> length (trace s') \<and> take (length t) (trace s') = t \<and> n \<le> extracted s'"
  using assms by (cases rule: handle_file_cases) auto

lemma process_tiles_extends:
  assumes "process_tiles env b ts st = (r, st')"
  shows "take (length (trace st)) (trace st') = trace st \<and> extracted st \<le> extracted st'"
proof -
  let ?P = "\<lambda>s. length (trace st) \<le> length (trace s) \<and>
    take (length (trace st)) (trace s) = trace st \<and> extracted st \<le> extracted s"
  have step: "\<forall>p s r s'. ?P s \<longrightarrow> handle_file env p s = (r, s') \<longrightarrow> ?P s'"
    using handle_file_extends by blast
  have "?P st" by simp
  from process_tile_preserves(2) [of ?P, OF step this assms] show ?thesis by simp
qed

lemma intersecting_tile_copies:
  assumes "tile_intersects (target_bbox env) bv = Inr True"
    and "truthy (py_or (uri cc) (url cc))"
    and "p = resolve env b (the (py_or (uri cc) (url cc)))"
    and "files st p = Some data" and "p \<notin> processed_files st"
    and "lower (path_suffix p) \<in> {''.glb'', ''.gltf''}"
    and "p \<noteq> path_join (out_dir env) (path_name p)"
  shows "process_tile env b (Tile bv (Some cc) ch) st =
    process_tiles env b ch
      (st\<lparr>extracted := extracted st + 1,
          processed_files := insert p (processed_files st),
          files := (files st)(path_join (out_dir env) (path_name p) \<mapsto> data),
          trace := trace st @ [Added p, Copied p (path_join (out_dir env) (path_name p)),
            Counted p]\<rparr>)"
proof -
  have "process_content env b cc st = handle_file env p st"
    using process_content_exists [of cc st env b] assms(2,3,4) by simp
  then show ?thesis
    using tile_inside [OF assms(1), of b "Some cc" ch st]
      handle_file_copies [OF assms(6,5,4,7)]
    by simp
qed

lemma intersecting_tile_extracts:
  assumes "tile_intersects (target_bbox env) bv = Inr True"
    and "truthy (py_or (uri cc) (url cc))"
    and "p = resolve env b (the (py_or (uri cc) (url cc)))"
    and "files st p = Some data" and "p \<notin> processed_files st"
    and "lower (path_suffix p) = ''.b3dm''"
    and "extract_b3dm_to_glb_bytes data = Inr glb"
  shows "process_tile env b (Tile bv (Some cc) ch) st =
    process_tiles env b ch
      (st\<lparr>extracted := extracted st + 1,
          processed_files := insert p (processed_files st),
          files := (files st)(path_join (out_dir env) (path_stem p @ ''.glb'') \<mapsto> glb),
          trace := trace st @ [Added p, Read p,
            Wrote p (path_join (out_dir env) (path_stem p @ ''.glb'')), Counted p]\<rparr>)"
proof -
  have "process_content env b cc st = handle_file env p st"
    using process_content_exists [of cc st env b] assms(2,3,4) by simp
  then show ?thesis
    using tile_inside [OF assms(1), of b "Some cc" ch st]
      handle_file_extracts [OF assms(6,5,4,7)]
    by simp
qed

text \<open>What is still there when the walk of the children is over.\<close>

lemma after_children:
  assumes "process_tile env b t st = process_tiles env b ch st1"
    and "p \<in> processed_files st1" and "files st1 d \<noteq> None"
    and "trace st1 = trace st @ evs" and "extracted st1 = extracted st + 1"
    and "length evs = n"
  shows "p \<in> processed_files (snd (process_tile env b t st)) \<and>
    files (snd (process_tile env b t st)) d \<noteq> None \<and>
    take (length (trace st) + n) (trace (snd (process_tile env b t st))) = trace st @ evs \<and>
    extracted st + 1 \<le> extracted (snd (process_tile env b t st))"
proof -
  obtain r st' where run: "process_tiles env b ch st1 = (r, st')"
    by (cases "process_tiles env b ch st1") auto
  have "p \<in> processed_files st'" "files st' d \<noteq> None"
    using process_tiles_grows [OF run] assms(2,3) by (auto simp: dom_def)
  moreover have "take (length (trace st) + n) (trace st') = trace st @ evs"
    "extracted st + 1 \<le> extracted st'"
    using process_tiles_extends [OF run] assms(4,5,6) by simp_all
  ultimately show ?thesis
    using assms(1) run by simp
qed


lemma intersecting_tile_copy_effect:
  assumes "tile_intersects (target_bbox env) bv = Inr True"
    and "truthy (py_or (uri cc) (url cc))"
    and "p = resolve env b (the (py_or (uri cc) (url cc)))"
    and "files st p = Some data" and "p \<notin> processed_files st"
    and "lower (path_suffix p) \<in> {''.glb'', ''.gltf''}"
    and "p \<noteq> path_join (out_dir env) (path_name p)"
  shows "process_tile env b (Tile bv (Some cc) ch) st =
      process_tiles env b ch
        (st\<lparr>extracted := extracted st + 1,
            processed_files := insert p (processed_files st),
            files := (files st)(path_join (out_dir env) (path_name p) \<mapsto> data),
            trace := trace st @ [Added p, Copied p (path_join (out_dir env) (path_name p)),
              Counted p]\<rparr>) \<and>
    p \<in> processed_files (snd (process_tile env b (Tile bv (Some cc) ch) st)) \<and>
    files (snd (process_tile env b (Tile bv (Some cc) ch) st))
      (path_join (out_dir env) (path_name p)) \<noteq> None \<and>
    take (length (trace st) + 3) (trace (snd (process_tile env b (Tile bv (Some cc) ch) st))) =
      trace st @ [Added p, Copied p (path_join (out_dir env) (path_name p)), Counted p] \<and>
    extracted st + 1 \<le> extracted (snd (process_tile env b (Tile bv (Some cc) ch) st))"
proof -
  let ?d = "path_join (out_dir env) (path_name p)"
  let ?st1 = "st\<lparr>extracted := extracted st + 1,
            processed_files := insert p (processed_files st),
            files := (files st)(?d \<mapsto> data),
            trace := trace st @ [Added p, Copied p ?d, Counted p]\<rparr>"
  have eq: "process_tile env b (Tile bv (Some cc) ch) st = process_tiles env b ch ?st1"
    by (rule intersecting_tile_copies [OF assms])
  have "p \<in> processed_files ?st1" "files ?st1 ?d \<noteq> None"
    "trace ?st1 = trace st @ [Added p, Copied p ?d, Counted p]"
    "extracted ?st1 = extracted st + 1"
    by simp_all
  from eq after_children [OF eq this, where n = 3] show ?thesis
    by (rule conjI) simp
qed

lemma intersecting_tile_extract_effect:
  assumes "tile_intersects (target_bbox env) bv = Inr True"
    and "truthy (py_or (uri cc) (url cc))"
    and "p = resolve env b (the (py_or (uri cc) (url cc)))"
    and "files st p = Some data" and "p \<notin> processed_files st"
    and "lower (path_suffix p) = ''.b3dm''"
    and "extract_b3dm_to_glb_bytes data = Inr glb"
  shows "process_tile env b (Tile bv (Some cc) ch) st =
      process_tiles env b ch
        (st\<lparr>extracted := extracted st + 1,
            processed_files := insert p (processed_files st),
            files := (files st)(path_join (out_dir env) (path_stem p @ ''.glb'') \<mapsto> glb),
            trace := trace st @ [Added p, Read p,
              Wrote p (path_join (out_dir env) (path_stem p @ ''.glb'')), Counted p]\<rparr>) \<and>
    p \<in> processed_files (snd (process_tile env b (Tile bv (Some cc) ch) st)) \<and>
    files (snd (process_tile env b (Tile bv (Some cc) ch) st))
      (path_join (out_dir env) (path_stem p @ ''.glb'')) \<noteq> None \<and>
    take (length (trace st) + 4) (trace (snd (process_tile env b (Tile bv (Some cc) ch) st))) =
      trace st @ [Added p, Read p,
        Wrote p (path_join (out_dir env) (path_stem p @ ''.glb'')), Counted p] \<and>
    extracted st + 1 \<le> extracted (snd (process_tile env b (Tile bv (Some cc) ch) st))"
proof -
  let ?d = "path_join (out_dir env) (path_stem p @ ''.glb'')"
  let ?st1 = "st\<lparr>extracted := extracted st + 1,
            processed_files := insert p (processed_files st),
            files := (files st)(?d \<mapsto> glb),
            trace := trace st @ [Added p, Read p, Wrote p ?d, Counted p]\<rparr>"
  have eq: "process_tile env b (Tile bv (Some cc) ch) st = process_tiles env b ch ?st1"
    by (rule intersecting_tile_extracts [OF assms])
  have "p \<in> processed_files ?st1" "files ?st1 ?d \<noteq> None"
    "trace ?st1 = trace st @ [Added p, Read p, Wrote p ?d, Counted p]"
    "extracted ?st1 = extracted st + 1"
    by simp_all
  from eq after_children [OF eq this, where n = 4] show ?thesis
    by (rule conjI) simp
qed

text \<open>The same for every target box: the box takes no part in handling the content.\<close>

lemma any_box_copy_effect:
  assumes "tile_intersects box bv = Inr True"
  shows "(truthy (py_or (uri cc) (url cc)) \<and>
    p = resolve env base_path (the (py_or (uri cc) (url cc))) \<and>
    files st p = Some data \<and> p \<notin> processed_files st \<and>
    lower (path_suffix p) \<in> {''.glb'', ''.gltf''} \<and>
    p \<noteq> path_join (out_dir env) (path_name p) \<longrightarrow>
      process_tile (env\<lparr>target_bbox := box\<rparr>) base_path (Tile bv (Some cc) ch) st =
        process_tiles (env\<lparr>target_bbox := box\<rparr>) base_path ch
          (st\<lparr>extracted := extracted st + 1,
              processed_files := insert p (processed_files st),
              files := (files st)(path_join (out_dir env) (path_name p) \<mapsto> data),
              trace := trace st @
                [Added p, Copied p (path_join (out_dir env) (path_name p)), Counted p]\<rparr>) \<and>
      p \<in> processed_files (snd (process_tile (env\<lparr>target_bbox := box\<rparr>) base_path (Tile bv (Some cc) ch) st)) \<and>
      files (snd (process_tile (env\<lparr>target_bbox := box\<rparr>) base_path (Tile bv (Some cc) ch) st))
        (path_join (out_dir env) (path_name p)) \<noteq> None \<and>
      take (length (trace st) + 3) (trace (snd (process_tile (env\<lparr>target_bbox := box\<rparr>) base_path (Tile bv (Some cc) ch) st))) =
        trace st @ [Added p, Copied p (path_join (out_dir env) (path_name p)), Counted p] \<and>
      extracted st + 1 \<le> extracted (snd (process_tile (env\<lparr>target_bbox := box\<rparr>) base_path (Tile bv (Some cc) ch) st)))"
proof (intro impI, elim conjE)
  have f: "out_dir (env\<lparr>target_bbox := box\<rparr>) = out_dir env"
    "resolve (env\<lparr>target_bbox := box\<rparr>) = resolve env"
    "target_bbox (env\<lparr>target_bbox := box\<rparr>) = box"
    by simp_all
  note effect = intersecting_tile_copy_effect [of "env\<lparr>target_bbox := box\<rparr>" bv cc p base_path st data ch, unfolded f]
  assume h: "truthy (py_or (uri cc) (url cc))"
    "p = resolve env base_path (the (py_or (uri cc) (url cc)))"
    "files st p = Some data" "p \<notin> processed_files st"
    "lower (path_suffix p) \<in> {''.glb'', ''.gltf''}"
    "p \<noteq> path_join (out_dir env) (path_name p)"
  show "process_tile (env\<lparr>target_bbox := box\<rparr>) base_path (Tile bv (Some cc) ch) st =
        process_tiles (env\<lparr>target_bbox := box\<rparr>) base_path ch
          (st\<lparr>extracted := extracted st + 1,
              processed_files := insert p (processed_files st),
              files := (files st)(path_join (out_dir env) (path_name p) \<mapsto> data),
              trace := trace st @
                [Added p, Copied p (path_join (out_dir env) (path_name p)), Counted p]\<rparr>) \<and>
      p \<in> processed_files (snd (process_tile (env\<lparr>target_bbox := box\<rparr>) base_path (Tile bv (Some cc) ch) st)) \<and>
      files (snd (process_tile (env\<lparr>target_bbox := box\<rparr>) base_path (Tile bv (Some cc) ch) st))
        (path_join (out_dir env) (path_name p)) \<noteq> None \<and>
      take (length (trace st) + 3) (trace (snd (process_tile (env\<lparr>target_bbox := box\<rparr>) base_path (Tile bv (Some cc) ch) st))) =
        trace st @ [Added p, Copied p (path_join (out_dir env) (path_name p)), Counted p] \<and>
      extracted st + 1 \<le> extracted (snd (process_tile (env\<lparr>target_bbox := box\<rparr>) base_path (Tile bv (Some cc) ch) st))"
    by (rule effect [OF assms h])
qed

lemma any_box_extract_effect:
  assumes "tile_intersects box bv = Inr True"
  shows "(truthy (py_or (uri cc) (url cc)) \<and>
    p = resolve env base_path (the (py_or (uri cc) (url cc))) \<and>
    files st p = Some data \<and> p \<notin> processed_files st \<and>
    lower (path_suffix p) = ''.b3dm'' \<and> extract_b3dm_to_glb_bytes data = Inr glb \<longrightarrow>
      process_tile (env\<lparr>target_bbox := box\<rparr>) base_path (Tile bv (Some cc) ch) st =
        process_tiles (env\<lparr>target_bbox := box\<rparr>) base_path ch
          (st\<lparr>extracted := extracted st + 1,
              processed_files := insert p (processed_files st),
              files := (files st)(path_join (out_dir env) (path_stem p @ ''.glb'') \<mapsto> glb),
              trace := trace st @
                [Added p, Read p, Wrote p (path_join (out_dir env) (path_stem p @ ''.glb'')), Counted p]\<rparr>) \<and>
      p \<in> processed_files (snd (process_tile (env\<lparr>target_bbox := box\<rparr>) base_path (Tile bv (Some cc) ch) st)) \<and>
      files (snd (process_tile (env\<lparr>target_bbox := box\<rparr>) base_path (Tile bv (Some cc) ch) st))
        (path_join (out_dir env) (path_stem p @ ''.glb'')) \<noteq> None \<and>
      take (length (trace st) + 4) (trace (snd (process_tile (env\<lparr>target_bbox := box\<rparr>) base_path (Tile bv (Some cc) ch) st))) =
        trace st @ [Added p, Read p, Wrote p (path_join (out_dir env) (path_stem p @ ''.glb'')), Counted p] \<and>
      extracted st + 1 \<le> extracted (snd (process_tile (env\<lparr>target_bbox := box\<rparr>) base_path (Tile bv (Some cc) ch) st)))"
proof (intro impI, elim conjE)
  have f: "out_dir (env\<lparr>target_bbox := box\<rparr>) = out_dir env"
    "resolve (env\<lparr>target_bbox := box\<rparr>) = resolve env"
    "target_bbox (env\<lparr>target_bbox := box\<rparr>) = box"
    by simp_all
  note effect = intersecting_tile_extract_effect [of "env\<lparr>target_bbox := box\<rparr>" bv cc p base_path st data glb ch, unfolded f]
  assume h: "truthy (py_or (uri cc) (url cc))"
    "p = resolve env base_path (the (py_or (uri cc) (url cc)))"
    "files st p = Some data" "p \<notin> processed_files st"
    "lower (path_suffix p) = ''.b3dm''" "extract_b3dm_to_glb_bytes data = Inr glb"
  show "process_tile (env\<lparr>target_bbox := box\<rparr>) base_path (Tile bv (Some cc) ch) st =
        process_tiles (env\<lparr>target_bbox := box\<rparr>) base_path ch
          (st\<lparr>extracted := extracted st + 1,
              processed_files := insert p (processed_files st),
              files := (files st)(path_join (out_dir env) (path_stem p @ ''.glb'') \<mapsto> glb),
              trace := trace st @
                [Added p, Read p, Wrote p (path_join (out_dir env) (path_stem p @ ''.glb'')), Counted p]\<rparr>) \<and>
      p \<in> processed_files (snd (process_tile (env\<lparr>target_bbox := box\<rparr>) base_path (Tile bv (Some cc) ch) st)) \<and>
      files (snd (process_tile (env\<lparr>target_bbox := box\<rparr>) base_path (Tile bv (Some cc) ch) st))
        (path_join (out_dir env) (path_stem p @ ''.glb'')) \<noteq> None \<and>
      take (length (trace st) + 4) (trace (snd (process_tile (env\<lparr>target_bbox := box\<rparr>) base_path (Tile bv (Some cc) ch) st))) =
        trace st @ [Added p, Read p, Wrote p (path_join (out_dir env) (path_stem p @ ''.glb'')), Counted p] \<and>
      extracted st + 1 \<le> extracted (snd (process_tile (env\<lparr>target_bbox := box\<rparr>) base_path (Tile bv (Some cc) ch) st))"
    by (rule effect [OF assms h])
qed

lemma content_relations:
  assumes "tile_intersects (target_bbox env) bv = Inr True"
  shows "process_tile env base_path (Tile bv c ch) st =
     (case (if c \<noteq> None then process_content env base_path (the c) st else (None, st)) of
        (Some e, st1) \<Rightarrow> (Some e, st1)
      | (None, st1) \<Rightarrow> process_tiles env base_path ch st1) \<and>
   process_content (env\<lparr>target_bbox := box\<rparr>) base_path cc st = process_content env base_path cc st \<and>
   (truthy (py_or (uri cc) (url cc)) \<and>
    files st (resolve env base_path (the (py_or (uri cc) (url cc)))) \<noteq> None \<longrightarrow>
      process_content (env\<lparr>target_bbox := box\<rparr>) base_path cc st =
      handle_file env (resolve env base_path (the (py_or (uri cc) (url cc)))) st)"
  using process_content_exists [of cc st env base_path] tile_inside [OF assms, of base_path c ch st]
  by (simp add: process_content_bbox del: process_tile.simps)

text \<open>
  Claim C7.  Without a bounding volume the test says the node intersects, for every target
  box.  The node is then processed as a node with a region that intersects is: its content is
  handled first, then its children are walked.  Handling the content does not look at the
  target box, and when the reference resolves to an existing file it is the extraction or
  copy \<open>handle_file\<close> of that file.  Its effect, for every target box: an asset on disk that
  was not processed before is added to the processed set and copied to the output directory
  under its name, and counted, and the children are walked from that state; a container on
  disk that was not processed before and parses is added, read, its payload written under its
  stem with \<^verbatim>\<open>.glb\<close>, and counted.  When the walk of the children is over the path is
  still in the processed set, the destination still exists, and the trace still starts with
  these events.  Both scripts do the same.
\<close>

theorem no_bounding_volume_intersects:
  "tile_intersects box None = Inr True \<and>
   process_tile_kaggle env base_path (Tile None c ch) st =
     process_tile env base_path (Tile None c ch) st \<and>
   (bbox_intersect r (target_bbox env) = Inr True \<longrightarrow>
      process_tile env base_path (Tile None c ch) st =
      process_tile env base_path (Tile (Some (BoundingVolume (Some r))) c ch) st) \<and>
   process_tile env base_path (Tile None c ch) st =
     (case (if c \<noteq> None then process_content env base_path (the c) st else (None, st)) of
        (Some e, st1) \<Rightarrow> (Some e, st1)
      | (None, st1) \<Rightarrow> process_tiles env base_path ch st1) \<and>
   process_content (env\<lparr>target_bbox := box\<rparr>) base_path cc st = process_content env base_path cc st \<and>
   (truthy (py_or (uri cc) (url cc)) \<and>
    files st (resolve env base_path (the (py_or (uri cc) (url cc)))) \<noteq> None \<longrightarrow>
      process_content (env\<lparr>target_bbox := box\<rparr>) base_path cc st =
      handle_file env (resolve env base_path (the (py_or (uri cc) (url cc)))) st) \<and>
   (truthy (py_or (uri cc) (url cc)) \<and>
    p = resolve env base_path (the (py_or (uri cc) (url cc))) \<and>
    files st p = Some data \<and> p \<notin> processed_files st \<and>
    lower (path_suffix p) \<in> {''.glb'', ''.gltf''} \<and>
    p \<noteq> path_join (out_dir env) (path_name p) \<longrightarrow>
      process_tile (env\<lparr>target_bbox := box\<rparr>) base_path (Tile None (Some cc) ch) st =
        process_tiles (env\<lparr>target_bbox := box\<rparr>) base_path ch
          (st\<lparr>extracted := extracted st + 1,
              processed_files := insert p (processed_files st),
              files := (files st)(path_join (out_dir env) (path_name p) \<mapsto> data),
              trace := trace st @
                [Added p, Copied p (path_join (out_dir env) (path_name p)), Counted p]\<rparr>) \<and>
      p \<in> processed_files (snd (process_tile (env\<lparr>target_bbox := box\<rparr>) base_path (Tile None (Some cc) ch) st)) \<and>
      files (snd (process_tile (env\<lparr>target_bbox := box\<rparr>) base_path (Tile None (Some cc) ch) st))
        (path_join (out_dir env) (path_name p)) \<noteq> None \<and>
      take (length (trace st) + 3) (trace (snd (process_tile (env\<lparr>target_bbox := box\<rparr>) base_path (Tile None (Some cc) ch) st))) =
        trace st @ [Added p, Copied p (path_join (out_dir env) (path_name p)), Counted p] \<and>
      extracted st + 1 \<le> extracted (snd (process_tile (env\<lparr>target_bbox := box\<rparr>) base_path (Tile None (Some cc) ch) st))) \<and>
   (truthy (py_or (uri cc) (url cc)) \<and>
    p = resolve env base_path (the (py_or (uri cc) (url cc))) \<and>
    files st p = Some data \<and> p \<notin> processed_files st \<and>
    lower (path_suffix p) = ''.b3dm'' \<and> extract_b3dm_to_glb_bytes data = Inr glb \<longrightarrow>
      process_tile (env\<lparr>target_bbox := box\<rparr>) base_path (Tile None (Some cc) ch) st =
        process_tiles (env\<lparr>target_bbox := box\<rparr>) base_path ch
          (st\<lparr>extracted := extracted st + 1,
              processed_files := insert p (processed_files st),
              files := (files st)(path_join (out_dir env) (path_stem p @ ''.glb'') \<mapsto> glb),
              trace := trace st @
                [Added p, Read p, Wrote p (path_join (out_dir env) (path_stem p @ ''.glb'')), Counted p]\<rparr>) \<and>
      p \<in> processed_files (snd (process_tile (env\<lparr>target_bbox := box\<rparr>) base_path (Tile None (Some cc) ch) st)) \<and>
      files (snd (process_tile (env\<lparr>target_bbox := box\<rparr>) base_path (Tile None (Some cc) ch) st))
        (path_join (out_dir env) (path_stem p @ ''.glb'')) \<noteq> None \<and>
      take (length (trace st) + 4) (trace (snd (process_tile (env\<lparr>target_bbox := box\<rparr>) base_path (Tile None (Some cc) ch) st))) =
        trace st @ [Added p, Read p, Wrote p (path_join (out_dir env) (path_stem p @ ''.glb'')), Counted p] \<and>
      extracted st + 1 \<le> extracted (snd (process_tile (env\<lparr>target_bbox := box\<rparr>) base_path (Tile None (Some cc) ch) st)))"
proof -
  have same: "bbox_intersect r (target_bbox env) = Inr True \<longrightarrow>
      process_tile env base_path (Tile None c ch) st =
      process_tile env base_path (Tile (Some (BoundingVolume (Some r))) c ch) st"
    by (simp add: tile_intersects_None tile_intersects_region)
  note rel = content_relations [OF tile_intersects_None, of env base_path c ch st box cc]
  show ?thesis
    by (intro conjI)
      (rule tile_intersects_None, rule process_tile_kaggle_eq, rule same,
        rule rel [THEN conjunct1], rule rel [THEN conjunct2, THEN conjunct1],
        rule rel [THEN conjunct2, THEN conjunct2],
        rule any_box_copy_effect [OF tile_intersects_None],
        rule any_box_extract_effect [OF tile_intersects_None])
qed

text \<open>
  Claim C9.  A bounding volume without a region, or with an empty region, makes the test say
  the node intersects, for every target box, and the node is processed as the same node
  without a bounding volume is: its content is handled first, then its children are walked,
  and handling the content does not look at the target box.  Its effect, for every target
  box: an asset on disk that was not processed before is added to the processed set, copied
  to the output directory under its name, and counted, and the children are walked from that
  state; a container on disk that was not processed before and parses is added, read, its
  payload written under its stem with \<^verbatim>\<open>.glb\<close>, and counted.  When the walk of the
  children is over the path is still in the processed set, the destination still exists, and
  the trace still starts with these events.  Both scripts do the same.
\<close>

theorem regionless_volume_intersects:
  "r = None \<or> r = Some [] \<Longrightarrow>
     tile_intersects box (Some (BoundingVolume r)) = Inr True \<and>
     tile_intersects box (Some (BoundingVolume r)) = tile_intersects box None \<and>
     process_tile env base_path (Tile (Some (BoundingVolume r)) c ch) st =
       process_tile env base_path (Tile None c ch) st \<and>
     process_tile_kaggle env base_path (Tile (Some (BoundingVolume r)) c ch) st =
       process_tile_kaggle env base_path (Tile None c ch) st \<and>
   process_tile env base_path (Tile (Some (BoundingVolume r)) c ch) st =
     (case (if c \<noteq> None then process_content env base_path (the c) st else (None, st)) of
        (Some e, st1) \<Rightarrow> (Some e, st1)
      | (None, st1) \<Rightarrow> process_tiles env base_path ch st1) \<and>
   process_content (env\<lparr>target_bbox := box\<rparr>) base_path cc st = process_content env base_path cc st \<and>
   (truthy (py_or (uri cc) (url cc)) \<and>
    files st (resolve env base_path (the (py_or (uri cc) (url cc)))) \<noteq> None \<longrightarrow>
      process_content (env\<lparr>target_bbox := box\<rparr>) base_path cc st =
      handle_file env (resolve env base_path (the (py_or (uri cc) (url cc)))) st) \<and>
   (truthy (py_or (uri cc) (url cc)) \<and>
    p = resolve env base_path (the (py_or (uri cc) (url cc))) \<and>
    files st p = Some data \<and> p \<notin> processed_files st \<and>
    lower (path_suffix p) \<in> {''.glb'', ''.gltf''} \<and>
    p \<noteq> path_join (out_dir env) (path_name p) \<longrightarrow>
      process_tile (env\<lparr>target_bbox := box\<rparr>) base_path (Tile (Some (BoundingVolume r)) (Some cc) ch) st =
        process_tiles (env\<lparr>target_bbox := box\<rparr>) base_path ch
          (st\<lparr>extracted := extracted st + 1,
              processed_files := insert p (processed_files st),
              files := (files st)(path_join (out_dir env) (path_name p) \<mapsto> data),
              trace := trace st @
                [Added p, Copied p (path_join (out_dir env) (path_name p)), Counted p]\<rparr>) \<and>
      p \<in> processed_files (snd (process_tile (env\<lparr>target_bbox := box\<rparr>) base_path (Tile (Some (BoundingVolume r)) (Some cc) ch) st)) \<and>
      files (snd (process_tile (env\<lparr>target_bbox := box\<rparr>) base_path (Tile (Some (BoundingVolume r)) (Some cc) ch) st))
        (path_join (out_dir env) (path_name p)) \<noteq> None \<and>
      take (length (trace st) + 3) (trace (snd (process_tile (env\<lparr>target_bbox := box\<rparr>) base_path (Tile (Some (BoundingVolume r)) (Some cc) ch) st))) =
        trace st @ [Added p, Copied p (path_join (out_dir env) (path_name p)), Counted p] \<and>
      extracted st + 1 \<le> extracted (snd (process_tile (env\<lparr>target_bbox := box\<rparr>) base_path (Tile (Some (BoundingVolume r)) (Some cc) ch) st))) \<and>
   (truthy (py_or (uri cc) (url cc)) \<and>
    p = resolve env base_path (the (py_or (uri cc) (url cc))) \<and>
    files st p = Some data \<and> p \<notin> processed_files st \<and>
    lower (path_suffix p) = ''.b3dm'' \<and> extract_b3dm_to_glb_bytes data = Inr glb \<longrightarrow>
      process_tile (env\<lparr>target_bbox := box\<rparr>) base_path (Tile (Some (BoundingVolume r)) (Some cc) ch) st =
        process_tiles (env\<lparr>target_bbox := box\<rparr>) base_path ch
          (st\<lparr>extracted := extracted st + 1,
              processed_files := insert p (processed_files st),
              files := (files st)(path_join (out_dir env) (path_stem p @ ''.glb'') \<mapsto> glb),
              trace := trace st @
                [Added p, Read p, Wrote p (path_join (out_dir env) (path_stem p @ ''.glb'')), Counted p]\<rparr>) \<and>
      p \<in> processed_files (snd (process_tile (env\<lparr>target_bbox := box\<rparr>) base_path (Tile (Some (BoundingVolume r)) (Some cc) ch) st)) \<and>
      files (snd (process_tile (env\<lparr>target_bbox := box\<rparr>) base_path (Tile (Some (BoundingVolume r)) (Some cc) ch) st))
        (path_join (out_dir env) (path_stem p @ ''.glb'')) \<noteq> None \<and>
      take (length (trace st) + 4) (trace (snd (process_tile (env\<lparr>target_bbox := box\<rparr>) base_path (Tile (Some (BoundingVolume r)) (Some cc) ch) st))) =
        trace st @ [Added p, Read p, Wrote p (path_join (out_dir env) (path_stem p @ ''.glb'')), Counted p] \<and>
      extracted st + 1 \<le> extracted (snd (process_tile (env\<lparr>target_bbox := box\<rparr>) base_path (Tile (Some (BoundingVolume r)) (Some cc) ch) st)))"
proof -
  assume r: "r = None \<or> r = Some []"
  have t: "tile_intersects b (Some (BoundingVolume r)) = Inr True" for b
    using r by (auto simp: tile_intersects_regionless)
  have old: "tile_intersects box (Some (BoundingVolume r)) = tile_intersects box None"
    "process_tile env base_path (Tile (Some (BoundingVolume r)) c ch) st =
       process_tile env base_path (Tile None c ch) st"
    "process_tile_kaggle env base_path (Tile (Some (BoundingVolume r)) c ch) st =
       process_tile_kaggle env base_path (Tile None c ch) st"
    using r by (auto simp: tile_intersects_regionless tile_intersects_None process_tile_kaggle_eq)
  note rel = content_relations [OF t, of env base_path c ch st box cc]
  show ?thesis
    by (intro conjI)
      (rule t, rule old(1), rule old(2), rule old(3),
        rule rel [THEN conjunct1], rule rel [THEN conjunct2, THEN conjunct1],
        rule rel [THEN conjunct2, THEN conjunct2],
        rule any_box_copy_effect [OF t], rule any_box_extract_effect [OF t])
qed

theorem no_bounding_volume_intersects_witness:
  "bbox_intersect near_region (target_bbox demo_env) = Inr True \<and>
   truthy (py_or (uri (Content (Some ''b.glb'') None)) (url (Content (Some ''b.glb'') None))) \<and>
   files (initial_state demo_files) (resolve demo_env ''/d''
     (the (py_or (uri (Content (Some ''b.glb'') None)) (url (Content (Some ''b.glb'') None))))) \<noteq> None \<and>
   tile_intersects (0, 0, 1, 1) None = Inr True \<and>
   process_tile demo_env ''/d'' (Tile None (Some (Content (Some ''b.glb'') None)) [])
     (initial_state demo_files) =
   process_tile demo_env ''/d''
     (Tile (Some (BoundingVolume (Some near_region))) (Some (Content (Some ''b.glb'') None)) [])
     (initial_state demo_files) \<and>
   process_content (demo_env\<lparr>target_bbox := (0, 0, 1, 1)\<rparr>) ''/d'' (Content (Some ''b.glb'') None)
     (initial_state demo_files) =
   handle_file demo_env (resolve demo_env ''/d''
     (the (py_or (uri (Content (Some ''b.glb'') None)) (url (Content (Some ''b.glb'') None)))))
     (initial_state demo_files) \<and>
   process_tile (demo_env\<lparr>target_bbox := (0, 0, 1, 1)\<rparr>) ''/d''
     (Tile None (Some (Content (Some ''b.glb'') None)) []) (initial_state demo_files) =
   (None, \<lparr>extracted = 1, processed_files = {''/d/b.glb''},
      files = demo_files(''/out/b.glb'' \<mapsto> [1, 2, 3]),
      trace = [Added ''/d/b.glb'', Copied ''/d/b.glb'' ''/out/b.glb'', Counted ''/d/b.glb'']\<rparr>) \<and>
   process_tile (demo_env\<lparr>target_bbox := (0, 0, 1, 1)\<rparr>) ''/d''
     (Tile None (Some (Content (Some ''a.b3dm'') None)) []) (initial_state demo_files) =
   (None, \<lparr>extracted = 1, processed_files = {''/d/a.b3dm''},
      files = demo_files(''/out/a.glb'' \<mapsto> replicate 52 0x67),
      trace = [Added ''/d/a.b3dm'', Read ''/d/a.b3dm'', Wrote ''/d/a.b3dm'' ''/out/a.glb'',
        Counted ''/d/a.b3dm'']\<rparr>)"
proof -
  let ?cc = "Content (Some ''b.glb'') None"
  let ?ca = "Content (Some ''a.b3dm'') None"
  let ?p = "resolve demo_env ''/d'' (the (py_or (uri ?cc) (url ?cc)))"
  let ?far = "demo_env\<lparr>target_bbox := (0, 0, 1, 1)\<rparr>"
  have near: "bbox_intersect near_region (target_bbox demo_env) = Inr True"
    by (simp add: bbox_intersect_def demo_env_fields TARGET_BBOX_def near_region_def)
  have u: "truthy (py_or (uri ?cc) (url ?cc))"
    by (simp add: py_or_def truthy_def)
  have ex: "files (initial_state demo_files) ?p \<noteq> None"
    by (simp add: py_or_def truthy_def demo_env_fields initial_state_def demo_files_at)
  note asset = no_bounding_volume_intersects [where box = "(0, 0, 1, 1)" and env = demo_env
      and base_path = "''/d''" and c = "Some ?cc" and ch = "[]" and st = "initial_state demo_files"
      and r = near_region and cc = ?cc and p = "''/d/b.glb''" and data = "[1, 2, 3]"
      and glb = "[]"]
  note container = no_bounding_volume_intersects [where box = "(0, 0, 1, 1)" and env = demo_env
      and base_path = "''/d''" and c = "Some ?ca" and ch = "[]" and st = "initial_state demo_files"
      and r = near_region and cc = ?ca and p = "''/d/a.b3dm''" and data = spec_container
      and glb = "replicate 52 0x67"]
  have box: "tile_intersects (0, 0, 1, 1) None = Inr True"
    by (rule asset [THEN conjunct1])
  have same: "process_tile demo_env ''/d'' (Tile None (Some ?cc) []) (initial_state demo_files) =
    process_tile demo_env ''/d'' (Tile (Some (BoundingVolume (Some near_region))) (Some ?cc) [])
      (initial_state demo_files)"
    by (rule asset [THEN conjunct2, THEN conjunct2, THEN conjunct1, THEN mp, OF near])
  have own: "process_content ?far ''/d'' ?cc (initial_state demo_files) =
      handle_file demo_env ?p (initial_state demo_files)"
    by (rule asset [THEN conjunct2, THEN conjunct2, THEN conjunct2, THEN conjunct2,
          THEN conjunct2, THEN conjunct1, THEN mp, OF conjI [OF u ex]])
  have copy_hyp: "truthy (py_or (uri ?cc) (url ?cc)) \<and>
      ''/d/b.glb'' = resolve demo_env ''/d'' (the (py_or (uri ?cc) (url ?cc))) \<and>
      files (initial_state demo_files) ''/d/b.glb'' = Some [1, 2, 3] \<and>
      ''/d/b.glb'' \<notin> processed_files (initial_state demo_files) \<and>
      lower (path_suffix ''/d/b.glb'') \<in> {''.glb'', ''.gltf''} \<and>
      ''/d/b.glb'' \<noteq> path_join (out_dir demo_env) (path_name ''/d/b.glb'')"
    by (simp add: py_or_def truthy_def demo_env_fields initial_state_def demo_files_at
        demo_paths path_join_def)
  note copied = asset [THEN conjunct2, THEN conjunct2, THEN conjunct2, THEN conjunct2,
      THEN conjunct2, THEN conjunct2, THEN conjunct1, THEN mp, OF copy_hyp]
  have copy_run: "process_tile ?far ''/d'' (Tile None (Some ?cc) []) (initial_state demo_files) =
    (None, \<lparr>extracted = 1, processed_files = {''/d/b.glb''},
      files = demo_files(''/out/b.glb'' \<mapsto> [1, 2, 3]),
      trace = [Added ''/d/b.glb'', Copied ''/d/b.glb'' ''/out/b.glb'', Counted ''/d/b.glb'']\<rparr>)"
    using copied [THEN conjunct1]
    by (simp add: initial_state_def demo_env_fields demo_paths path_join_def
        del: process_tile.simps)
  have extract_hyp: "truthy (py_or (uri ?ca) (url ?ca)) \<and>
      ''/d/a.b3dm'' = resolve demo_env ''/d'' (the (py_or (uri ?ca) (url ?ca))) \<and>
      files (initial_state demo_files) ''/d/a.b3dm'' = Some spec_container \<and>
      ''/d/a.b3dm'' \<notin> processed_files (initial_state demo_files) \<and>
      lower (path_suffix ''/d/a.b3dm'') = ''.b3dm'' \<and>
      extract_b3dm_to_glb_bytes spec_container = Inr (replicate 52 0x67)"
    by (simp add: py_or_def truthy_def demo_env_fields initial_state_def demo_files_at
        demo_paths spec_container_payload)
  note extracted = container [THEN conjunct2, THEN conjunct2, THEN conjunct2, THEN conjunct2,
      THEN conjunct2, THEN conjunct2, THEN conjunct2, THEN mp, OF extract_hyp]
  have extract_run: "process_tile ?far ''/d'' (Tile None (Some ?ca) []) (initial_state demo_files) =
    (None, \<lparr>extracted = 1, processed_files = {''/d/a.b3dm''},
      files = demo_files(''/out/a.glb'' \<mapsto> replicate 52 0x67),
      trace = [Added ''/d/a.b3dm'', Read ''/d/a.b3dm'', Wrote ''/d/a.b3dm'' ''/out/a.glb'',
        Counted ''/d/a.b3dm'']\<rparr>)"
    using extracted [THEN conjunct1]
    by (simp add: initial_state_def demo_env_fields demo_paths path_join_def
        del: process_tile.simps)
  show ?thesis
    by (intro conjI) (rule near, rule u, rule ex, rule box, rule same, rule own, rule copy_run,
        rule extract_run)
qed

theorem regionless_volume_intersects_witness:
  "(Some [] = (None :: real list option) \<or> Some [] = Some ([] :: real list)) \<and>
   ((None :: real list option) = None \<or> None = Some ([] :: real list)) \<and>
   tile_intersects (0, 0, 1, 1) (Some (BoundingVolume (Some []))) = Inr True \<and>
   tile_intersects (0, 0, 1, 1) (Some (BoundingVolume None)) = Inr True \<and>
   process_tile (demo_env\<lparr>target_bbox := (0, 0, 1, 1)\<rparr>) ''/d''
     (Tile (Some (BoundingVolume (Some []))) (Some (Content (Some ''b.glb'') None)) [])
     (initial_state demo_files) =
   process_tile (demo_env\<lparr>target_bbox := (0, 0, 1, 1)\<rparr>) ''/d''
     (Tile None (Some (Content (Some ''b.glb'') None)) []) (initial_state demo_files) \<and>
   process_content (demo_env\<lparr>target_bbox := (0, 0, 1, 1)\<rparr>) ''/d'' (Content (Some ''b.glb'') None)
     (initial_state demo_files) =
   handle_file demo_env (resolve demo_env ''/d''
     (the (py_or (uri (Content (Some ''b.glb'') None)) (url (Content (Some ''b.glb'') None)))))
     (initial_state demo_files) \<and>
   process_tile (demo_env\<lparr>target_bbox := (0, 0, 1, 1)\<rparr>) ''/d''
     (Tile (Some (BoundingVolume (Some []))) (Some (Content (Some ''b.glb'') None)) [])
     (initial_state demo_files) =
   (None, \<lparr>extracted = 1, processed_files = {''/d/b.glb''},
      files = demo_files(''/out/b.glb'' \<mapsto> [1, 2, 3]),
      trace = [Added ''/d/b.glb'', Copied ''/d/b.glb'' ''/out/b.glb'', Counted ''/d/b.glb'']\<rparr>) \<and>
   process_tile (demo_env\<lparr>target_bbox := (0, 0, 1, 1)\<rparr>) ''/d''
     (Tile (Some (BoundingVolume None)) (Some (Content (Some ''a.b3dm'') None)) [])
     (initial_state demo_files) =
   (None, \<lparr>extracted = 1, processed_files = {''/d/a.b3dm''},
      files = demo_files(''/out/a.glb'' \<mapsto> replicate 52 0x67),
      trace = [Added ''/d/a.b3dm'', Read ''/d/a.b3dm'', Wrote ''/d/a.b3dm'' ''/out/a.glb'',
        Counted ''/d/a.b3dm'']\<rparr>)"
proof -
  let ?cc = "Content (Some ''b.glb'') None"
  let ?ca = "Content (Some ''a.b3dm'') None"
  let ?p = "resolve demo_env ''/d'' (the (py_or (uri ?cc) (url ?cc)))"
  let ?far = "demo_env\<lparr>target_bbox := (0, 0, 1, 1)\<rparr>"
  have empty: "Some [] = (None :: real list option) \<or> Some [] = Some ([] :: real list)"
    and absent: "(None :: real list option) = None \<or> None = Some ([] :: real list)"
    by simp_all
  note asset = regionless_volume_intersects [where r = "Some []" and box = "(0, 0, 1, 1)"
      and env = ?far and base_path = "''/d''" and c = "Some ?cc" and ch = "[]"
      and st = "initial_state demo_files" and cc = ?cc and p = "''/d/b.glb''"
      and data = "[1, 2, 3]" and glb = "[]", OF empty]
  note asset' = regionless_volume_intersects [where r = "Some []" and box = "(0, 0, 1, 1)"
      and env = demo_env and base_path = "''/d''" and c = "Some ?cc" and ch = "[]"
      and st = "initial_state demo_files" and cc = ?cc and p = "''/d/b.glb''"
      and data = "[1, 2, 3]" and glb = "[]", OF empty]
  note container = regionless_volume_intersects [where r = None and box = "(0, 0, 1, 1)"
      and env = demo_env and base_path = "''/d''" and c = "Some ?ca" and ch = "[]"
      and st = "initial_state demo_files" and cc = ?ca and p = "''/d/a.b3dm''"
      and data = spec_container and glb = "replicate 52 0x67", OF absent]
  have u: "truthy (py_or (uri ?cc) (url ?cc))"
    by (simp add: py_or_def truthy_def)
  have ex: "files (initial_state demo_files) ?p \<noteq> None"
    by (simp add: py_or_def truthy_def demo_env_fields initial_state_def demo_files_at)
  have flag_empty: "tile_intersects (0, 0, 1, 1) (Some (BoundingVolume (Some []))) = Inr True"
    by (rule asset [THEN conjunct1])
  have flag_absent: "tile_intersects (0, 0, 1, 1) (Some (BoundingVolume None)) = Inr True"
    by (rule container [THEN conjunct1])
  have same: "process_tile ?far ''/d'' (Tile (Some (BoundingVolume (Some []))) (Some ?cc) [])
      (initial_state demo_files) =
    process_tile ?far ''/d'' (Tile None (Some ?cc) []) (initial_state demo_files)"
    by (rule asset [THEN conjunct2, THEN conjunct2, THEN conjunct1])
  have own: "process_content ?far ''/d'' ?cc (initial_state demo_files) =
      handle_file demo_env ?p (initial_state demo_files)"
    by (rule asset' [THEN conjunct2, THEN conjunct2, THEN conjunct2, THEN conjunct2,
          THEN conjunct2, THEN conjunct2, THEN conjunct1, THEN mp, OF conjI [OF u ex]])
  have copy_hyp: "truthy (py_or (uri ?cc) (url ?cc)) \<and>
      ''/d/b.glb'' = resolve demo_env ''/d'' (the (py_or (uri ?cc) (url ?cc))) \<and>
      files (initial_state demo_files) ''/d/b.glb'' = Some [1, 2, 3] \<and>
      ''/d/b.glb'' \<notin> processed_files (initial_state demo_files) \<and>
      lower (path_suffix ''/d/b.glb'') \<in> {''.glb'', ''.gltf''} \<and>
      ''/d/b.glb'' \<noteq> path_join (out_dir demo_env) (path_name ''/d/b.glb'')"
    by (simp add: py_or_def truthy_def demo_env_fields initial_state_def demo_files_at
        demo_paths path_join_def)
  note copied = asset' [THEN conjunct2, THEN conjunct2, THEN conjunct2, THEN conjunct2,
      THEN conjunct2, THEN conjunct2, THEN conjunct2, THEN conjunct1, THEN mp, OF copy_hyp]
  have copy_run: "process_tile ?far ''/d''
      (Tile (Some (BoundingVolume (Some []))) (Some ?cc) []) (initial_state demo_files) =
    (None, \<lparr>extracted = 1, processed_files = {''/d/b.glb''},
      files = demo_files(''/out/b.glb'' \<mapsto> [1, 2, 3]),
      trace = [Added ''/d/b.glb'', Copied ''/d/b.glb'' ''/out/b.glb'', Counted ''/d/b.glb'']\<rparr>)"
    using copied [THEN conjunct1]
    by (simp add: initial_state_def demo_env_fields demo_paths path_join_def
        del: process_tile.simps)
  have extract_hyp: "truthy (py_or (uri ?ca) (url ?ca)) \<and>
      ''/d/a.b3dm'' = resolve demo_env ''/d'' (the (py_or (uri ?ca) (url ?ca))) \<and>
      files (initial_state demo_files) ''/d/a.b3dm'' = Some spec_container \<and>
      ''/d/a.b3dm'' \<notin> processed_files (initial_state demo_files) \<and>
      lower (path_suffix ''/d/a.b3dm'') = ''.b3dm'' \<and>
      extract_b3dm_to_glb_bytes spec_container = Inr (replicate 52 0x67)"
    by (simp add: py_or_def truthy_def demo_env_fields initial_state_def demo_files_at
        demo_paths spec_container_payload)
  note extracted = container [THEN conjunct2, THEN conjunct2, THEN conjunct2, THEN conjunct2,
      THEN conjunct2, THEN conjunct2, THEN conjunct2, THEN conjunct2, THEN mp, OF extract_hyp]
  have extract_run: "process_tile ?far ''/d''
      (Tile (Some (BoundingVolume None)) (Some ?ca) []) (initial_state demo_files) =
    (None, \<lparr>extracted = 1, processed_files = {''/d/a.b3dm''},
      files = demo_files(''/out/a.glb'' \<mapsto> replicate 52 0x67),
      trace = [Added ''/d/a.b3dm'', Read ''/d/a.b3dm'', Wrote ''/d/a.b3dm'' ''/out/a.glb'',
        Counted ''/d/a.b3dm'']\<rparr>)"
    using extracted [THEN conjunct1]
    by (simp add: initial_state_def demo_env_fields demo_paths path_join_def
        del: process_tile.simps)
  show ?thesis
    by (intro conjI) (rule empty, rule absent, rule flag_empty, rule flag_absent, rule same,
        rule own, rule copy_run, rule extract_run)
qed

section \<open>Destination names\<close>

lemma handle_file_named:
  assumes "list_all (named_by_source env) (trace st)" and "handle_file env p st = (r, st')"
  shows "list_all (named_by_source env) (trace st')"
  using assms(2)
proof (cases rule: handle_file_cases)
  case unchanged
  then show ?thesis using assms(1) by simp
next
  case rejected
  then show ?thesis using assms(1) by simp
next
  case (extracted data glb)
  then show ?thesis using assms(1) by simp
next
  case (refused e)
  then show ?thesis using assms(1) by simp
next
  case (copied data)
  then show ?thesis using assms(1) by simp
qed

lemma walk_tilesets_named:
  "list_all (named_by_source env) (trace (snd (walk_tilesets env ms (initial_state fs))))"
proof -
  let ?P = "\<lambda>s. list_all (named_by_source env) (trace s)"
  have step: "\<forall>p s r s'. ?P s \<longrightarrow> handle_file env p s = (r, s') \<longrightarrow> ?P s'"
    using handle_file_named by blast
  have start: "?P (initial_state fs)"
    by (simp add: initial_state_def)
  have run: "walk_tilesets env ms (initial_state fs) =
      (fst (walk_tilesets env ms (initial_state fs)), snd (walk_tilesets env ms (initial_state fs)))"
    by simp
  from walk_tilesets_preserves [of ?P, OF step start run] show ?thesis .
qed

lemma stem_from_name:
  "path_name p = path_name q \<Longrightarrow> path_stem p = path_stem q \<and> path_suffix p = path_suffix q"
  by (simp add: path_stem_def path_suffix_def)

lemma two_assets_collide:
  assumes "p \<noteq> q" and "path_name p = path_name q"
    and "lower (path_suffix p) \<in> {''.glb'', ''.gltf''}"
    and "p \<notin> processed_files st" and "q \<notin> processed_files st"
    and "files st p = Some dp" and "files st q = Some dq"
    and "path_join (out_dir env) (path_name p) \<notin> {p, q}"
  shows "handle_file env q (snd (handle_file env p st)) =
    (None, st\<lparr>extracted := extracted st + 2,
       processed_files := insert q (insert p (processed_files st)),
       files := (files st)(path_join (out_dir env) (path_name p) \<mapsto> dq),
       trace := trace st @
         [Added p, Copied p (path_join (out_dir env) (path_name p)), Counted p,
          Added q, Copied q (path_join (out_dir env) (path_name p)), Counted q]\<rparr>)"
proof -
  let ?dst = "path_join (out_dir env) (path_name p)"
  let ?st1 = "st\<lparr>extracted := extracted st + 1,
               processed_files := insert p (processed_files st),
               files := (files st)(?dst \<mapsto> dp),
               trace := trace st @ [Added p, Copied p ?dst, Counted p]\<rparr>"
  have first: "handle_file env p st = (None, ?st1)"
    using handle_file_copies [of p st dp env] assms(3,4,6,8) by auto
  have suffix: "lower (path_suffix q) \<in> {''.glb'', ''.gltf''}"
    using assms(2,3) stem_from_name [of p q] by simp
  have "handle_file env q ?st1 =
    (None, ?st1\<lparr>extracted := extracted ?st1 + 1,
               processed_files := insert q (processed_files ?st1),
               files := (files ?st1)(path_join (out_dir env) (path_name q) \<mapsto> dq),
               trace := trace ?st1 @ [Added q,
                 Copied q (path_join (out_dir env) (path_name q)), Counted q]\<rparr>)"
    using assms(1,2,5,7,8) by (intro handle_file_copies [OF suffix]) auto
  then show ?thesis
    using first assms(2) by simp
qed

lemma two_containers_collide:
  assumes "p \<noteq> q" and "path_name p = path_name q"
    and "lower (path_suffix p) = ''.b3dm''"
    and "p \<notin> processed_files st" and "q \<notin> processed_files st"
    and "files st p = Some dp" and "files st q = Some dq"
    and "extract_b3dm_to_glb_bytes dp = Inr gp" and "extract_b3dm_to_glb_bytes dq = Inr gq"
    and "path_join (out_dir env) (path_stem p @ ''.glb'') \<noteq> q"
  shows "handle_file env q (snd (handle_file env p st)) =
    (None, st\<lparr>extracted := extracted st + 2,
       processed_files := insert q (insert p (processed_files st)),
       files := (files st)(path_join (out_dir env) (path_stem p @ ''.glb'') \<mapsto> gq),
       trace := trace st @
         [Added p, Read p, Wrote p (path_join (out_dir env) (path_stem p @ ''.glb'')), Counted p,
          Added q, Read q, Wrote q (path_join (out_dir env) (path_stem p @ ''.glb'')), Counted q]\<rparr>)"
proof -
  let ?dst = "path_join (out_dir env) (path_stem p @ ''.glb'')"
  let ?st1 = "st\<lparr>extracted := extracted st + 1,
               processed_files := insert p (processed_files st),
               files := (files st)(?dst \<mapsto> gp),
               trace := trace st @ [Added p, Read p, Wrote p ?dst, Counted p]\<rparr>"
  have first: "handle_file env p st = (None, ?st1)"
    using handle_file_extracts [of p st dp gp env] assms(3,4,6,8) by simp
  have suffix: "lower (path_suffix q) = ''.b3dm''" and stem: "path_stem q = path_stem p"
    using assms(2,3) stem_from_name [of p q] by simp_all
  have "handle_file env q ?st1 =
    (None, ?st1\<lparr>extracted := extracted ?st1 + 1,
               processed_files := insert q (processed_files ?st1),
               files := (files ?st1)(path_join (out_dir env) (path_stem q @ ''.glb'') \<mapsto> gq),
               trace := trace ?st1 @ [Added q, Read q,
                 Wrote q (path_join (out_dir env) (path_stem q @ ''.glb'')), Counted q]\<rparr>)"
    using assms(1,5,7,9,10) by (intro handle_file_extracts [OF suffix]) auto
  then show ?thesis
    using first stem by simp
qed

text \<open>
  Claim C10.  In the trace of a run over any manifests, every write goes to the output
  directory under the source's stem with \<^verbatim>\<open>.glb\<close> and every copy goes there under the
  source's name; stem and suffix are functions of the name, so the directory of the source
  has no part in it.  Two different assets of one name, both on disk and not yet processed,
  handled one after the other, are copied to one destination, which ends up with the content
  of the second, and the counter goes up by two; likewise two different containers of one
  name that both parse.  Both scripts handle a file in the same way.
\<close>

theorem destination_from_base_name:
  "list_all (named_by_source env) (trace (snd (walk_tilesets env manifests (initial_state fs)))) \<and>
   walk_tilesets_kaggle env manifests (initial_state fs) =
     walk_tilesets env manifests (initial_state fs) \<and>
   handle_file_kaggle env p st = handle_file env p st \<and>
   (path_name p = path_name q \<longrightarrow> path_stem p = path_stem q \<and> path_suffix p = path_suffix q) \<and>
   (p \<noteq> q \<and> path_name p = path_name q \<and> lower (path_suffix p) \<in> {''.glb'', ''.gltf''} \<and>
    p \<notin> processed_files st \<and> q \<notin> processed_files st \<and>
    files st p = Some dp \<and> files st q = Some dq \<and>
    path_join (out_dir env) (path_name p) \<notin> {p, q} \<longrightarrow>
      fst (handle_file env q (snd (handle_file env p st))) = None \<and>
      files (snd (handle_file env q (snd (handle_file env p st))))
        (path_join (out_dir env) (path_name p)) = Some dq \<and>
      extracted (snd (handle_file env q (snd (handle_file env p st)))) = extracted st + 2 \<and>
      trace (snd (handle_file env q (snd (handle_file env p st)))) = trace st @
         [Added p, Copied p (path_join (out_dir env) (path_name p)), Counted p,
          Added q, Copied q (path_join (out_dir env) (path_name p)), Counted q]) \<and>
   (p \<noteq> q \<and> path_name p = path_name q \<and> lower (path_suffix p) = ''.b3dm'' \<and>
    p \<notin> processed_files st \<and> q \<notin> processed_files st \<and>
    files st p = Some dp \<and> files st q = Some dq \<and>
    extract_b3dm_to_glb_bytes dp = Inr gp \<and> extract_b3dm_to_glb_bytes dq = Inr gq \<and>
    path_join (out_dir env) (path_stem p @ ''.glb'') \<noteq> q \<longrightarrow>
      fst (handle_file env q (snd (handle_file env p st))) = None \<and>
      files (snd (handle_file env q (snd (handle_file env p st))))
        (path_join (out_dir env) (path_stem p @ ''.glb'')) = Some gq \<and>
      extracted (snd (handle_file env q (snd (handle_file env p st)))) = extracted st + 2 \<and>
      trace (snd (handle_file env q (snd (handle_file env p st)))) = trace st @
         [Added p, Read p, Wrote p (path_join (out_dir env) (path_stem p @ ''.glb'')), Counted p,
          Added q, Read q, Wrote q (path_join (out_dir env) (path_stem p @ ''.glb'')), Counted q])"
proof (intro conjI impI)
  show "list_all (named_by_source env) (trace (snd (walk_tilesets env manifests (initial_state fs))))"
    by (rule walk_tilesets_named)
  show "walk_tilesets_kaggle env manifests (initial_state fs) =
      walk_tilesets env manifests (initial_state fs)"
    by (rule walk_tilesets_kaggle_eq)
  show "handle_file_kaggle env p st = handle_file env p st"
    by (rule handle_file_kaggle_eq)
next
  assume "path_name p = path_name q"
  then show "path_stem p = path_stem q" "path_suffix p = path_suffix q"
    using stem_from_name [of p q] by simp_all
next
  assume "p \<noteq> q \<and> path_name p = path_name q \<and> lower (path_suffix p) \<in> {''.glb'', ''.gltf''} \<and>
    p \<notin> processed_files st \<and> q \<notin> processed_files st \<and>
    files st p = Some dp \<and> files st q = Some dq \<and>
    path_join (out_dir env) (path_name p) \<notin> {p, q}"
  then have h: "p \<noteq> q" "path_name p = path_name q"
    "lower (path_suffix p) \<in> {''.glb'', ''.gltf''}"
    "p \<notin> processed_files st" "q \<notin> processed_files st"
    "files st p = Some dp" "files st q = Some dq"
    "path_join (out_dir env) (path_name p) \<notin> {p, q}"
    by blast+
  have run: "handle_file env q (snd (handle_file env p st)) =
    (None, st\<lparr>extracted := extracted st + 2,
       processed_files := insert q (insert p (processed_files st)),
       files := (files st)(path_join (out_dir env) (path_name p) \<mapsto> dq),
       trace := trace st @
         [Added p, Copied p (path_join (out_dir env) (path_name p)), Counted p,
          Added q, Copied q (path_join (out_dir env) (path_name p)), Counted q]\<rparr>)"
    by (rule two_assets_collide [OF h])
  show "fst (handle_file env q (snd (handle_file env p st))) = None"
    "files (snd (handle_file env q (snd (handle_file env p st))))
        (path_join (out_dir env) (path_name p)) = Some dq"
    "extracted (snd (handle_file env q (snd (handle_file env p st)))) = extracted st + 2"
    "trace (snd (handle_file env q (snd (handle_file env p st)))) = trace st @
         [Added p, Copied p (path_join (out_dir env) (path_name p)), Counted p,
          Added q, Copied q (path_join (out_dir env) (path_name p)), Counted q]"
    by (simp_all add: run)
next
  assume "p \<noteq> q \<and> path_name p = path_name q \<and> lower (path_suffix p) = ''.b3dm'' \<and>
    p \<notin> processed_files st \<and> q \<notin> processed_files st \<and>
    files st p = Some dp \<and> files st q = Some dq \<and>
    extract_b3dm_to_glb_bytes dp = Inr gp \<and> extract_b3dm_to_glb_bytes dq = Inr gq \<and>
    path_join (out_dir env) (path_stem p @ ''.glb'') \<noteq> q"
  then have h: "p \<noteq> q" "path_name p = path_name q" "lower (path_suffix p) = ''.b3dm''"
    "p \<notin> processed_files st" "q \<notin> processed_files st"
    "files st p = Some dp" "files st q = Some dq"
    "extract_b3dm_to_glb_bytes dp = Inr gp" "extract_b3dm_to_glb_bytes dq = Inr gq"
    "path_join (out_dir env) (path_stem p @ ''.glb'') \<noteq> q"
    by blast+
  have run: "handle_file env q (snd (handle_file env p st)) =
    (None, st\<lparr>extracted := extracted st + 2,
       processed_files := insert q (insert p (processed_files st)),
       files := (files st)(path_join (out_dir env) (path_stem p @ ''.glb'') \<mapsto> gq),
       trace := trace st @
         [Added p, Read p, Wrote p (path_join (out_dir env) (path_stem p @ ''.glb'')), Counted p,
          Added q, Read q, Wrote q (path_join (out_dir env) (path_stem p @ ''.glb'')), Counted q]\<rparr>)"
    by (rule two_containers_collide [OF h])
  show "fst (handle_file env q (snd (handle_file env p st))) = None"
    "files (snd (handle_file env q (snd (handle_file env p st))))
        (path_join (out_dir env) (path_stem p @ ''.glb'')) = Some gq"
    "extracted (snd (handle_file env q (snd (handle_file env p st)))) = extracted st + 2"
    "trace (snd (handle_file env q (snd (handle_file env p st)))) = trace st @
         [Added p, Read p, Wrote p (path_join (out_dir env) (path_stem p @ ''.glb'')), Counted p,
          Added q, Read q, Wrote q (path_join (out_dir env) (path_stem p @ ''.glb'')), Counted q]"
    by (simp_all add: run)
qed

theorem destination_from_base_name_witness:
  "''/d/b.glb'' \<noteq> ''/e/b.glb'' \<and> path_name ''/d/b.glb'' = path_name ''/e/b.glb'' \<and>
   lower (path_suffix ''/d/b.glb'') \<in> {''.glb'', ''.gltf''} \<and>
   path_join (out_dir demo_env) (path_name ''/d/b.glb'') = ''/out/b.glb'' \<and>
   ''/d/a.b3dm'' \<noteq> ''/e/a.b3dm'' \<and> path_name ''/d/a.b3dm'' = path_name ''/e/a.b3dm'' \<and>
   lower (path_suffix ''/d/a.b3dm'') = ''.b3dm'' \<and>
   path_join (out_dir demo_env) (path_stem ''/d/a.b3dm'' @ ''.glb'') = ''/out/a.glb'' \<and>
   files (snd (handle_file demo_env ''/e/b.glb''
     (snd (handle_file demo_env ''/d/b.glb'' (initial_state demo_files))))) ''/out/b.glb'' = Some [6] \<and>
   extracted (snd (handle_file demo_env ''/e/b.glb''
     (snd (handle_file demo_env ''/d/b.glb'' (initial_state demo_files))))) = 2 \<and>
   files (snd (handle_file demo_env ''/e/a.b3dm''
     (snd (handle_file demo_env ''/d/a.b3dm'' (initial_state demo_files))))) ''/out/a.glb'' =
     Some [0x67, 0x6C, 0x54, 0x46] \<and>
   extracted (snd (handle_file demo_env ''/e/a.b3dm''
     (snd (handle_file demo_env ''/d/a.b3dm'' (initial_state demo_files))))) = 2 \<and>
   fst (walk_tilesets demo_env same_name_manifests (initial_state demo_files)) = None \<and>
   files (snd (walk_tilesets demo_env same_name_manifests (initial_state demo_files))) ''/out/b.glb'' =
     Some [6] \<and>
   extracted (snd (walk_tilesets demo_env same_name_manifests (initial_state demo_files))) = 2 \<and>
   list_all (named_by_source demo_env)
     (trace (snd (walk_tilesets demo_env same_name_manifests (initial_state demo_files))))"
proof -
  have paths: "''/d/b.glb'' \<noteq> ''/e/b.glb''" "path_name ''/d/b.glb'' = path_name ''/e/b.glb''"
    "lower (path_suffix ''/d/b.glb'') \<in> {''.glb'', ''.gltf''}"
    "path_join (out_dir demo_env) (path_name ''/d/b.glb'') = ''/out/b.glb''"
    "''/d/a.b3dm'' \<noteq> ''/e/a.b3dm''" "path_name ''/d/a.b3dm'' = path_name ''/e/a.b3dm''"
    "lower (path_suffix ''/d/a.b3dm'') = ''.b3dm''"
    "path_join (out_dir demo_env) (path_stem ''/d/a.b3dm'' @ ''.glb'') = ''/out/a.glb''"
    by (simp_all add: demo_paths demo_env_fields path_join_def)
  have start: "''/d/b.glb'' \<notin> processed_files (initial_state demo_files)"
    "''/e/b.glb'' \<notin> processed_files (initial_state demo_files)"
    "''/d/a.b3dm'' \<notin> processed_files (initial_state demo_files)"
    "''/e/a.b3dm'' \<notin> processed_files (initial_state demo_files)"
    "files (initial_state demo_files) ''/d/b.glb'' = Some [1, 2, 3]"
    "files (initial_state demo_files) ''/e/b.glb'' = Some [6]"
    "files (initial_state demo_files) ''/d/a.b3dm'' = Some spec_container"
    "files (initial_state demo_files) ''/e/a.b3dm'' = Some stale_length_container"
    "extracted (initial_state demo_files) = 0"
    by (simp_all add: initial_state_def demo_files_at)
  note assets = destination_from_base_name [where env = demo_env and manifests = same_name_manifests
      and fs = demo_files and p = "''/d/b.glb''" and st = "initial_state demo_files"
      and q = "''/e/b.glb''" and dp = "[1, 2, 3]" and dq = "[6]"
      and gp = "[]" and gq = "[]"]
  note containers = destination_from_base_name [where env = demo_env
      and manifests = same_name_manifests and fs = demo_files and p = "''/d/a.b3dm''"
      and st = "initial_state demo_files" and q = "''/e/a.b3dm''" and dp = spec_container
      and dq = stale_length_container and gp = "replicate 52 0x67"
      and gq = "[0x67, 0x6C, 0x54, 0x46]"]
  note assets_case = assets [THEN conjunct2, THEN conjunct2, THEN conjunct2, THEN conjunct2,
      THEN conjunct1, THEN mp]
  note containers_case = containers [THEN conjunct2, THEN conjunct2, THEN conjunct2,
      THEN conjunct2, THEN conjunct2, THEN mp]
  have "fst (handle_file demo_env ''/e/b.glb''
          (snd (handle_file demo_env ''/d/b.glb'' (initial_state demo_files)))) = None \<and>
      files (snd (handle_file demo_env ''/e/b.glb''
          (snd (handle_file demo_env ''/d/b.glb'' (initial_state demo_files)))))
        (path_join (out_dir demo_env) (path_name ''/d/b.glb'')) = Some [6] \<and>
      extracted (snd (handle_file demo_env ''/e/b.glb''
          (snd (handle_file demo_env ''/d/b.glb'' (initial_state demo_files))))) =
        extracted (initial_state demo_files) + 2 \<and>
      trace (snd (handle_file demo_env ''/e/b.glb''
          (snd (handle_file demo_env ''/d/b.glb'' (initial_state demo_files))))) =
        trace (initial_state demo_files) @
         [Added ''/d/b.glb'', Copied ''/d/b.glb'' (path_join (out_dir demo_env) (path_name ''/d/b.glb'')),
          Counted ''/d/b.glb'', Added ''/e/b.glb'',
          Copied ''/e/b.glb'' (path_join (out_dir demo_env) (path_name ''/d/b.glb'')),
          Counted ''/e/b.glb'']"
    by (rule assets_case) (simp add: demo_paths demo_env_fields path_join_def start)
  then have a: "files (snd (handle_file demo_env ''/e/b.glb''
     (snd (handle_file demo_env ''/d/b.glb'' (initial_state demo_files))))) ''/out/b.glb'' = Some [6]"
   "extracted (snd (handle_file demo_env ''/e/b.glb''
     (snd (handle_file demo_env ''/d/b.glb'' (initial_state demo_files))))) = 2"
    by (simp_all add: demo_paths demo_env_fields path_join_def start)
  have "fst (handle_file demo_env ''/e/a.b3dm''
          (snd (handle_file demo_env ''/d/a.b3dm'' (initial_state demo_files)))) = None \<and>
      files (snd (handle_file demo_env ''/e/a.b3dm''
          (snd (handle_file demo_env ''/d/a.b3dm'' (initial_state demo_files)))))
        (path_join (out_dir demo_env) (path_stem ''/d/a.b3dm'' @ ''.glb'')) =
        Some [0x67, 0x6C, 0x54, 0x46] \<and>
      extracted (snd (handle_file demo_env ''/e/a.b3dm''
          (snd (handle_file demo_env ''/d/a.b3dm'' (initial_state demo_files))))) =
        extracted (initial_state demo_files) + 2 \<and>
      trace (snd (handle_file demo_env ''/e/a.b3dm''
          (snd (handle_file demo_env ''/d/a.b3dm'' (initial_state demo_files))))) =
        trace (initial_state demo_files) @
         [Added ''/d/a.b3dm'', Read ''/d/a.b3dm'',
          Wrote ''/d/a.b3dm'' (path_join (out_dir demo_env) (path_stem ''/d/a.b3dm'' @ ''.glb'')),
          Counted ''/d/a.b3dm'', Added ''/e/a.b3dm'', Read ''/e/a.b3dm'',
          Wrote ''/e/a.b3dm'' (path_join (out_dir demo_env) (path_stem ''/d/a.b3dm'' @ ''.glb'')),
          Counted ''/e/a.b3dm'']"
    by (rule containers_case)
      (simp add: demo_paths demo_env_fields path_join_def start spec_container_payload
        stale_length_container_payload)
  then have c: "files (snd (handle_file demo_env ''/e/a.b3dm''
     (snd (handle_file demo_env ''/d/a.b3dm'' (initial_state demo_files))))) ''/out/a.glb'' =
     Some [0x67, 0x6C, 0x54, 0x46]"
   "extracted (snd (handle_file demo_env ''/e/a.b3dm''
     (snd (handle_file demo_env ''/d/a.b3dm'' (initial_state demo_files))))) = 2"
    by (simp_all add: demo_paths demo_env_fields path_join_def start)
  have n: "list_all (named_by_source demo_env)
     (trace (snd (walk_tilesets demo_env same_name_manifests (initial_state demo_files))))"
    using assets by blast
  have w: "fst (walk_tilesets demo_env same_name_manifests (initial_state demo_files)) = None"
    "files (snd (walk_tilesets demo_env same_name_manifests (initial_state demo_files))) ''/out/b.glb'' =
       Some [6]"
    "extracted (snd (walk_tilesets demo_env same_name_manifests (initial_state demo_files))) = 2"
    by (simp_all add: same_name_walk)
  show ?thesis
    using paths a c n w by blast
qed

end
